theory Spec2Isabelle
  imports Complex_Main "HOL-Library.Multiset" "HOL-Library.Char_ord" "HOL-Library.List_Lexorder"
begin

unbundle bit_operations_syntax

section \<open>Data model\<close>

text \<open>
  Numbers of the engine (Python \<open>int\<close> and \<open>float\<close>) are modelled as exact rationals.
  A value read from a catalog document may be of any type; the scorer only ever asks
  whether it is a number, so a value is either a number or something else.
\<close>

datatype pyval = Num rat | NonNum

datatype py_error = TypeError | AttributeError | ZeroDivisionError

text \<open>\<open>Budget\<close> of \<open>app/api/models/user_profile.py\<close> (fields \<open>min\<close> and \<open>max\<close>).\<close>

record budget =
  budget_min :: rat
  budget_max :: rat

text \<open>
  \<open>UserProfile\<close>: the requirement fields of \<open>UserProfileBase\<close> and the identity fields
  of \<open>UserProfileCreate\<close>. The engine tests \<open>user_profile.budget\<close> and the two lists for
  being absent, so they are optional here.
\<close>

record user_profile =
  purpose :: string
  budget :: "budget option"
  performance_level :: string
  preferred_brands :: "string list option"
  must_have_features :: "string list option"
  session_id :: string
  user_id :: "string option"

record weights =
  w_purpose :: rat
  w_budget :: rat
  w_performance :: rat
  w_brand :: rat

text \<open>\<open>d.get(k, default)\<close> on a dictionary.\<close>

definition dict_get :: "('k \<rightharpoonup> 'v) \<Rightarrow> 'k \<Rightarrow> 'v \<Rightarrow> 'v" where
  "dict_get d k dflt = (case d k of Some v \<Rightarrow> v | None \<Rightarrow> dflt)"

section \<open>Sub-scores, normal mode\<close>

definition purpose_mapping :: "string \<rightharpoonup> string" where
  "purpose_mapping = map_of
     [(''gaming'', ''gaming''), (''office'', ''office''), (''creative'', ''creative''),
      (''programming'', ''programming''), (''general'', ''general'')]"

definition purpose_specificity :: "string \<rightharpoonup> rat" where
  "purpose_specificity = map_of
     [(''gaming'', 12 / 10), (''creative'', 115 / 100), (''programming'', 1),
      (''office'', 9 / 10), (''general'', 1)]"

text \<open>
  \<open>_calculate_purpose_score\<close>: no handler of its own, so a non-numeric suitability
  value raises (\<open>base_score * weight\<close>) into the scorer's handler.
\<close>

definition calculate_purpose_score :: "string \<Rightarrow> (string \<rightharpoonup> pyval) \<Rightarrow> py_error + rat" where
  "calculate_purpose_score purp suitability_scores =
     (let purpose_key = dict_get purpose_mapping purp ''general'';
          base_score = dict_get suitability_scores purpose_key (Num 50);
          weight = dict_get purpose_specificity purp 1
      in case base_score of
           NonNum \<Rightarrow> Inl TypeError
         | Num b \<Rightarrow> Inr (min 100 (b * weight)))"

text \<open>
  \<open>_calculate_budget_fit\<close>, documented as "budget fit score (0-100)". The branches
  for \<open>budget_range <= 0\<close> and \<open>max_distance <= 0\<close> are kept as the source has them.
\<close>

definition calculate_budget_fit :: "pyval \<Rightarrow> budget \<Rightarrow> rat" where
  "calculate_budget_fit price b =
     (case price of
        NonNum \<Rightarrow> 0
      | Num p \<Rightarrow>
          if p < 0 then 0
          else if budget_min b \<ge> budget_max b \<or> budget_min b < 0 \<or> budget_max b < 0 then 0
          else
            let budget_range = budget_max b - budget_min b in
            if budget_range \<le> 0 then (if p = budget_min b then 100 else 50)
            else
              let tightness_factor = max (1 / 2) (min 2 (1000 / budget_range));
                  center = (budget_min b + budget_max b) / 2;
                  distance_from_center = \<bar>p - center\<bar>;
                  max_distance = budget_range / 2
              in
              if max_distance \<le> 0 then 50
              else
                let fit_score = max 0 (100 * (1 - distance_from_center / max_distance) * tightness_factor) in
                if \<bar>p - budget_min b\<bar> < budget_range * (1 / 10) then min 100 (fit_score + 15)
                else if \<bar>p - budget_max b\<bar> < budget_range * (1 / 10) then min 100 (fit_score + 10)
                else fit_score)"

text \<open>
  The budget-fit formula in the words of the specification, for comparison with the
  source: 0 for invalid bounds, otherwise the centering score scaled by the tightness
  factor, plus the bonus near a bound, the result clamped to [0,100].
\<close>

definition budget_fit_spec :: "rat \<Rightarrow> budget \<Rightarrow> rat" where
  "budget_fit_spec p b =
     (if budget_min b \<ge> budget_max b \<or> budget_min b < 0 \<or> budget_max b < 0 then 0
      else
        let range = budget_max b - budget_min b;
            center = (budget_min b + budget_max b) / 2;
            tightness = max (1 / 2) (min 2 (1000 / range));
            centering = 100 * (1 - \<bar>p - center\<bar> / (range / 2));
            bonus = (if \<bar>p - budget_min b\<bar> < range / 10 then 15
                     else if \<bar>p - budget_max b\<bar> < range / 10 then 10 else 0)
        in max 0 (min 100 (centering * tightness + bonus)))"

definition base_weights :: weights where
  "base_weights = \<lparr>w_purpose = 4 / 10, w_budget = 3 / 10, w_performance = 2 / 10, w_brand = 1 / 10\<rparr>"

definition performance_weights :: "string \<rightharpoonup> rat" where
  "performance_weights = map_of
     [(''basic'', 15 / 100), (''standard'', 2 / 10), (''high'', 25 / 100), (''professional'', 3 / 10)]"

definition purpose_weights :: "string \<rightharpoonup> weights" where
  "purpose_weights = map_of
     [(''gaming'', \<lparr>w_purpose = 45 / 100, w_budget = 2 / 10, w_performance = 3 / 10, w_brand = 5 / 100\<rparr>),
      (''creative'', \<lparr>w_purpose = 4 / 10, w_budget = 2 / 10, w_performance = 3 / 10, w_brand = 1 / 10\<rparr>),
      (''programming'', \<lparr>w_purpose = 35 / 100, w_budget = 25 / 100, w_performance = 3 / 10, w_brand = 1 / 10\<rparr>),
      (''office'', \<lparr>w_purpose = 3 / 10, w_budget = 4 / 10, w_performance = 2 / 10, w_brand = 1 / 10\<rparr>),
      (''general'', \<lparr>w_purpose = 35 / 100, w_budget = 3 / 10, w_performance = 25 / 100, w_brand = 1 / 10\<rparr>)]"

definition weights_sum :: "weights \<Rightarrow> rat" where
  "weights_sum w = w_purpose w + w_budget w + w_performance w + w_brand w"

text \<open>
  Floating-point arithmetic as \<open>_calculate_dynamic_weights\<close> uses it: \<open>fl\<close> gives the
  float for a literal or for the exact result of one operation, \<open>fsum\<close> is the built-in
  \<open>sum\<close>. Exact arithmetic is the instance in which neither rounds.
\<close>

record float_arith =
  fl :: "rat \<Rightarrow> rat"
  fsum :: "rat list \<Rightarrow> rat"

definition exact_arith :: float_arith where
  "exact_arith = \<lparr>fl = (\<lambda>x. x), fsum = sum_list\<rparr>"

text \<open>
  What IEEE double arithmetic with rounding to nearest guarantees for values between
  0.001 and 1000: one rounding has a relative error of at most \<open>2^-53\<close>, and the sum
  of four such values, however it is accumulated, one of at most \<open>4 * 2^-53\<close>.
\<close>

definition float_ok :: "float_arith \<Rightarrow> bool" where
  "float_ok fa \<longleftrightarrow>
     (\<forall>x. 1 / 1000 \<le> x \<and> x \<le> 1000 \<longrightarrow> \<bar>fl fa x - x\<bar> \<le> x / 2 ^ 53)
     \<and> (\<forall>a b c d. 1 / 1000 \<le> a \<and> a \<le> 1000 \<and> 1 / 1000 \<le> b \<and> b \<le> 1000
                  \<and> 1 / 1000 \<le> c \<and> c \<le> 1000 \<and> 1 / 1000 \<le> d \<and> d \<le> 1000
            \<longrightarrow> \<bar>fsum fa [a, b, c, d] - (a + b + c + d)\<bar> \<le> 4 * (a + b + c + d) / 2 ^ 53)"

text \<open>A dictionary of weights written with float literals.\<close>

definition float_weights :: "float_arith \<Rightarrow> weights \<Rightarrow> weights" where
  "float_weights fa w =
     \<lparr>w_purpose = fl fa (w_purpose w), w_budget = fl fa (w_budget w),
      w_performance = fl fa (w_performance w), w_brand = fl fa (w_brand w)\<rparr>"

text \<open>Every weight between 0.04 and 0.5: the range of the float literals of the
  weight tables.\<close>

definition weights_in_range :: "weights \<Rightarrow> bool" where
  "weights_in_range w \<longleftrightarrow> 4 / 100 \<le> w_purpose w \<and> w_purpose w \<le> 1 / 2 \<and> 4 / 100 \<le> w_budget w \<and> w_budget w \<le> 1 / 2
     \<and> 4 / 100 \<le> w_performance w \<and> w_performance w \<le> 1 / 2 \<and> 4 / 100 \<le> w_brand w \<and> w_brand w \<le> 1 / 2"

text \<open>The budget-tightness adjustment of \<open>_calculate_dynamic_weights\<close>.\<close>

definition tightness_weights :: "float_arith \<Rightarrow> rat \<Rightarrow> weights" where
  "tightness_weights fa budget_range =
     (if budget_range < 500 then
        float_weights fa \<lparr>w_purpose = 3 / 10, w_budget = 4 / 10, w_performance = 2 / 10, w_brand = 1 / 10\<rparr>
      else if budget_range > 2000 then
        float_weights fa \<lparr>w_purpose = 4 / 10, w_budget = 2 / 10, w_performance = 3 / 10, w_brand = 1 / 10\<rparr>
      else float_weights fa base_weights)"

text \<open>The renormalisation loop \<open>weights[key] = weights[key] / total_weight\<close>.\<close>

definition normalise_weights :: "float_arith \<Rightarrow> weights \<Rightarrow> rat \<Rightarrow> weights" where
  "normalise_weights fa w total_weight =
     \<lparr>w_purpose = fl fa (w_purpose w / total_weight), w_budget = fl fa (w_budget w / total_weight),
      w_performance = fl fa (w_performance w / total_weight),
      w_brand = fl fa (w_brand w / total_weight)\<rparr>"

text \<open>
  The value of \<open>user_profile.budget\<close> as \<open>_calculate_dynamic_weights\<close> may find it:
  absent, a \<open>Budget\<close> object, or a dictionary, the form that the other functions of the
  engine accept as well. A dictionary has no attributes \<open>min\<close> and \<open>max\<close>.
\<close>

datatype budget_attr = BudgetAbsent | BudgetModel budget | BudgetDict "(string \<times> pyval) list"

definition budget_attr_of :: "budget option \<Rightarrow> budget_attr" where
  "budget_attr_of b = (case b of None \<Rightarrow> BudgetAbsent | Some v \<Rightarrow> BudgetModel v)"

text \<open>
  The body of \<open>_calculate_dynamic_weights\<close> inside its \<open>try\<close>, on the budget, the
  performance level and the purpose of the profile. The test \<open>not user_profile.budget\<close>
  is true for an absent budget and for an empty dictionary; reading \<open>budget.max\<close> of a
  dictionary raises. The dictionary of weights keeps the order purpose, budget,
  performance, brand, in which \<open>sum\<close> adds its values.
\<close>

definition dynamic_weights_body :: "float_arith \<Rightarrow> budget_attr \<Rightarrow> string \<Rightarrow> string \<Rightarrow> py_error + weights" where
  "dynamic_weights_body fa battr required_level purp =
     (case battr of
        BudgetAbsent \<Rightarrow> Inr (float_weights fa base_weights)
      | BudgetDict d \<Rightarrow> (if d = [] then Inr (float_weights fa base_weights) else Inl AttributeError)
      | BudgetModel b \<Rightarrow>
          let budget_range = fl fa (budget_max b - budget_min b);
              w0 = tightness_weights fa budget_range;
              w1 = w0\<lparr>w_performance := fl fa (dict_get performance_weights required_level (2 / 10))\<rparr>;
              w2 = (case purpose_weights purp of Some pw \<Rightarrow> float_weights fa pw | None \<Rightarrow> w1);
              total_weight = fsum fa [w_purpose w2, w_budget w2, w_performance w2, w_brand w2]
          in if total_weight > 0 then Inr (normalise_weights fa w2 total_weight)
             else Inr (float_weights fa base_weights))"

text \<open>\<open>_calculate_dynamic_weights\<close>: the handler returns the base weights.\<close>

definition calculate_dynamic_weights :: "float_arith \<Rightarrow> budget_attr \<Rightarrow> string \<Rightarrow> string \<Rightarrow> weights" where
  "calculate_dynamic_weights fa battr required_level purp =
     (case dynamic_weights_body fa battr required_level purp of
        Inl err \<Rightarrow> float_weights fa base_weights
      | Inr w \<Rightarrow> w)"

definition level_mapping :: "string \<rightharpoonup> rat" where
  "level_mapping = map_of [(''basic'', 30), (''standard'', 50), (''high'', 70), (''professional'', 85)]"

text \<open>Component weights by purpose, in the order the source lists them.\<close>

definition component_weights :: "string \<rightharpoonup> (string \<times> rat) list" where
  "component_weights = map_of
     [(''gaming'', [(''gpu'', 5 / 10), (''cpu'', 3 / 10), (''ram'', 15 / 100), (''storage'', 5 / 100)]),
      (''creative'', [(''gpu'', 4 / 10), (''cpu'', 35 / 100), (''ram'', 2 / 10), (''storage'', 5 / 100)]),
      (''programming'', [(''cpu'', 4 / 10), (''ram'', 3 / 10), (''gpu'', 2 / 10), (''storage'', 1 / 10)]),
      (''office'', [(''cpu'', 3 / 10), (''ram'', 3 / 10), (''gpu'', 2 / 10), (''storage'', 2 / 10)]),
      (''general'', [(''cpu'', 3 / 10), (''gpu'', 3 / 10), (''ram'', 2 / 10), (''storage'', 2 / 10)])]"

fun weighted_performance :: "(string \<rightharpoonup> pyval) \<Rightarrow> (string \<times> rat) list \<Rightarrow> rat \<Rightarrow> rat" where
  "weighted_performance prof [] acc = acc"
| "weighted_performance prof ((component, weight) # ws) acc =
     (case dict_get prof (component @ ''_performance'') (Num 50) of
        Num component_score \<Rightarrow> weighted_performance prof ws (acc + component_score * weight)
      | NonNum \<Rightarrow> weighted_performance prof ws acc)"

definition calculate_performance_score :: "string \<Rightarrow> (string \<rightharpoonup> pyval) \<Rightarrow> string \<Rightarrow> rat" where
  "calculate_performance_score required_level performance_profile purp =
     (let required_score = dict_get level_mapping required_level 50;
          ws = (case component_weights purp of Some l \<Rightarrow> l
                | None \<Rightarrow> [(''cpu'', 3 / 10), (''gpu'', 3 / 10), (''ram'', 2 / 10), (''storage'', 2 / 10)]);
          wp = weighted_performance performance_profile ws 0
      in if wp \<ge> required_score then 100
         else if wp \<ge> required_score * (8 / 10) then 75
         else if wp \<ge> required_score * (6 / 10) then 50
         else 25)"

section \<open>Sub-scores, safe mode\<close>

text \<open>
  Each safe sub-score is a body inside \<open>try\<close> and a handler returning a constant. The
  body is a computation that may raise; the function is the body with the handler applied.
\<close>

definition purpose_score_safe_body :: "string \<Rightarrow> (string \<rightharpoonup> pyval) \<Rightarrow> py_error + rat" where
  "purpose_score_safe_body purp suitability_scores =
     (let purpose_key = dict_get purpose_mapping purp ''general'';
          base_score = dict_get suitability_scores purpose_key (Num 50)
      in case base_score of
           NonNum \<Rightarrow> Inl TypeError
         | Num b \<Rightarrow> Inr (max 60 (min 100 b)))"

definition calculate_purpose_score_safe :: "string \<Rightarrow> (string \<rightharpoonup> pyval) \<Rightarrow> rat" where
  "calculate_purpose_score_safe purp suitability_scores =
     (case purpose_score_safe_body purp suitability_scores of Inl e \<Rightarrow> 70 | Inr v \<Rightarrow> v)"

definition budget_fit_safe_body :: "pyval \<Rightarrow> budget \<Rightarrow> py_error + rat" where
  "budget_fit_safe_body price b =
     (case price of
        NonNum \<Rightarrow> Inl TypeError
      | Num p \<Rightarrow>
          if p < budget_min b then Inr 70
          else if p > budget_max b then Inr 60
          else
            let budget_range = budget_max b - budget_min b in
            if budget_range = 0 then Inr 85
            else
              let center = (budget_min b + budget_max b) / 2;
                  distance_from_center = \<bar>p - center\<bar>;
                  max_distance = budget_range / 2
              in if max_distance = 0 then Inl ZeroDivisionError
                 else Inr (max 70 (100 * (1 - distance_from_center / max_distance))))"

definition calculate_budget_fit_safe :: "pyval \<Rightarrow> budget \<Rightarrow> rat" where
  "calculate_budget_fit_safe price b =
     (case budget_fit_safe_body price b of Inl e \<Rightarrow> 75 | Inr v \<Rightarrow> v)"

definition safe_level_mapping :: "string \<rightharpoonup> rat" where
  "safe_level_mapping = map_of [(''basic'', 40), (''standard'', 50), (''high'', 60), (''professional'', 70)]"

definition performance_score_safe_body :: "string \<Rightarrow> (string \<rightharpoonup> pyval) \<Rightarrow> py_error + rat" where
  "performance_score_safe_body required_level performance_profile =
     (let required_score = dict_get safe_level_mapping required_level 50 in
      case dict_get performance_profile ''overall_performance'' (Num 50) of
        NonNum \<Rightarrow> Inl TypeError
      | Num overall_performance \<Rightarrow>
          if overall_performance \<ge> required_score then Inr (max 85 (min 100 overall_performance))
          else if overall_performance \<ge> required_score * (7 / 10) then Inr 75
          else if overall_performance \<ge> required_score * (5 / 10) then Inr 70
          else Inr 65)"

definition calculate_performance_score_safe :: "string \<Rightarrow> (string \<rightharpoonup> pyval) \<Rightarrow> rat" where
  "calculate_performance_score_safe required_level performance_profile =
     (case performance_score_safe_body required_level performance_profile of Inl e \<Rightarrow> 70 | Inr v \<Rightarrow> v)"

section \<open>Cache key\<close>

text \<open>
  \<open>generate_cache_key\<close> of \<open>app/core/cache.py\<close> joins the string forms of its arguments
  with \<open>|\<close> and returns the hexadecimal MD5 digest of the result. MD5 (RFC 1321) is
  written out on 32-bit values held in \<open>int\<close>, every addition reduced modulo \<open>2^32\<close>.
\<close>

definition md5_K :: "int list" where
  "md5_K = [0xd76aa478, 0xe8c7b756, 0x242070db, 0xc1bdceee, 0xf57c0faf, 0x4787c62a, 0xa8304613, 0xfd469501,
            0x698098d8, 0x8b44f7af, 0xffff5bb1, 0x895cd7be, 0x6b901122, 0xfd987193, 0xa679438e, 0x49b40821,
            0xf61e2562, 0xc040b340, 0x265e5a51, 0xe9b6c7aa, 0xd62f105d, 0x2441453, 0xd8a1e681, 0xe7d3fbc8,
            0x21e1cde6, 0xc33707d6, 0xf4d50d87, 0x455a14ed, 0xa9e3e905, 0xfcefa3f8, 0x676f02d9, 0x8d2a4c8a,
            0xfffa3942, 0x8771f681, 0x6d9d6122, 0xfde5380c, 0xa4beea44, 0x4bdecfa9, 0xf6bb4b60, 0xbebfbc70,
            0x289b7ec6, 0xeaa127fa, 0xd4ef3085, 0x4881d05, 0xd9d4d039, 0xe6db99e5, 0x1fa27cf8, 0xc4ac5665,
            0xf4292244, 0x432aff97, 0xab9423a7, 0xfc93a039, 0x655b59c3, 0x8f0ccc92, 0xffeff47d, 0x85845dd1,
            0x6fa87e4f, 0xfe2ce6e0, 0xa3014314, 0x4e0811a1, 0xf7537e82, 0xbd3af235, 0x2ad7d2bb, 0xeb86d391]"

definition md5_s :: "nat list" where
  "md5_s = [7, 12, 17, 22, 7, 12, 17, 22, 7, 12, 17, 22, 7, 12, 17, 22,
            5, 9, 14, 20, 5, 9, 14, 20, 5, 9, 14, 20, 5, 9, 14, 20,
            4, 11, 16, 23, 4, 11, 16, 23, 4, 11, 16, 23, 4, 11, 16, 23,
            6, 10, 15, 21, 6, 10, 15, 21, 6, 10, 15, 21, 6, 10, 15, 21]"

definition rotl32 :: "int \<Rightarrow> nat \<Rightarrow> int" where
  "rotl32 x n = (x * 2 ^ n) mod 4294967296 + x div 2 ^ (32 - n)"

definition not32 :: "int \<Rightarrow> int" where
  "not32 x = 4294967295 - x"

definition md5_step :: "int list \<Rightarrow> (int \<times> int \<times> int \<times> int) \<Rightarrow> nat \<Rightarrow> (int \<times> int \<times> int \<times> int)" where
  "md5_step m st i =
     (case st of (a, b, c, d) \<Rightarrow>
        let f = (if i < 16 then (b AND c) OR (not32 b AND d)
                 else if i < 32 then (d AND b) OR (not32 d AND c)
                 else if i < 48 then b XOR c XOR d
                 else c XOR (b OR not32 d));
            g = (if i < 16 then i
                 else if i < 32 then (5 * i + 1) mod 16
                 else if i < 48 then (3 * i + 5) mod 16
                 else (7 * i) mod 16);
            f' = (f + a + md5_K ! i + m ! g) mod 4294967296
        in (d, (b + rotl32 f' (md5_s ! i)) mod 4294967296, b, c))"

definition md5_block :: "(int \<times> int \<times> int \<times> int) \<Rightarrow> int list \<Rightarrow> (int \<times> int \<times> int \<times> int)" where
  "md5_block st m =
     (case st of (a0, b0, c0, d0) \<Rightarrow>
        case foldl (md5_step m) st [0..<64] of (a, b, c, d) \<Rightarrow>
          ((a0 + a) mod 4294967296, (b0 + b) mod 4294967296,
           (c0 + c) mod 4294967296, (d0 + d) mod 4294967296))"

fun le_word :: "int list \<Rightarrow> int" where
  "le_word [] = 0"
| "le_word (b # bs) = b + 256 * le_word bs"

fun chunks :: "nat \<Rightarrow> 'a list \<Rightarrow> 'a list list" where
  "chunks n [] = []"
| "chunks n (x # xs) = (if n = 0 then [] else take n (x # xs) # chunks n (drop n (x # xs)))"

fun le_bytes :: "nat \<Rightarrow> int \<Rightarrow> int list" where
  "le_bytes 0 n = []"
| "le_bytes (Suc k) n = n mod 256 # le_bytes k (n div 256)"

definition md5_pad :: "int list \<Rightarrow> int list" where
  "md5_pad bs = (let l = int (length bs); z = (119 - l mod 64) mod 64
                 in bs @ [128] @ replicate (nat z) 0 @ le_bytes 8 ((8 * l) mod 2 ^ 64))"

definition hex_byte :: "int \<Rightarrow> string" where
  "hex_byte b = [''0123456789abcdef'' ! nat (b div 16), ''0123456789abcdef'' ! nat (b mod 16)]"

definition md5_hexdigest :: "string \<Rightarrow> string" where
  "md5_hexdigest s =
     (let blocks = map (map le_word \<circ> chunks 4) (chunks 64 (md5_pad (map of_char s)));
          final = foldl md5_block (0x67452301, 0xefcdab89, 0x98badcfe, 0x10325476) blocks
      in case final of (a, b, c, d) \<Rightarrow>
           concat (map (\<lambda>w. concat (map hex_byte (le_bytes 4 w))) [a, b, c, d]))"

text \<open>\<open>sep.join(parts)\<close>.\<close>

fun join :: "string \<Rightarrow> string list \<Rightarrow> string" where
  "join sep [] = []"
| "join sep [x] = x"
| "join sep (x # y # ys) = x @ sep @ join sep (y # ys)"

definition generate_cache_key :: "string list \<Rightarrow> string" where
  "generate_cache_key args = md5_hexdigest (join ''|'' args)"

text \<open>
  \<open>json.dumps\<close> with its defaults: items separated by a comma and a space, keys by a
  colon and a space, strings escaped to ASCII. A Python string is modelled as a list of
  code points below 256. How a float is printed is Python's \<open>float.__repr__\<close>; it is a
  parameter of the serialisation.
\<close>

definition hex4 :: "int \<Rightarrow> string" where
  "hex4 n = ''00'' @ hex_byte n"

definition json_escape_char :: "char \<Rightarrow> string" where
  "json_escape_char c =
     (let n = (of_char c :: int) in
      if n = 34 then [CHR 0x5C, CHR 0x22]
      else if n = 92 then [CHR 0x5C, CHR 0x5C]
      else if n = 10 then [CHR 0x5C, CHR ''n'']
      else if n = 13 then [CHR 0x5C, CHR ''r'']
      else if n = 9 then [CHR 0x5C, CHR ''t'']
      else if n = 8 then [CHR 0x5C, CHR ''b'']
      else if n = 12 then [CHR 0x5C, CHR ''f'']
      else if n < 32 \<or> n > 126 then [CHR 0x5C, CHR ''u''] @ hex4 n
      else [c])"

definition json_string :: "string \<Rightarrow> string" where
  "json_string s = [CHR 0x22] @ concat (map json_escape_char s) @ [CHR 0x22]"

definition json_list :: "string list \<Rightarrow> string" where
  "json_list xs = ''['' @ join '', '' (map json_string xs) @ '']''"

function decimal :: "nat \<Rightarrow> string" where
  "decimal n = (if n < 10 then [''0123456789'' ! n] else decimal (n div 10) @ [''0123456789'' ! (n mod 10)])"
  by pat_completeness auto
termination
  by (relation "measure (\<lambda>n. n)") auto

definition json_bool :: "bool \<Rightarrow> string" where
  "json_bool b = (if b then ''true'' else ''false'')"

text \<open>\<open>x or default\<close> on a string and on an optional list.\<close>

definition str_or :: "string \<Rightarrow> string \<Rightarrow> string" where
  "str_or s dflt = (if s = [] then dflt else s)"

definition list_or_empty :: "'a list option \<Rightarrow> 'a list" where
  "list_or_empty l = (case l of None \<Rightarrow> [] | Some xs \<Rightarrow> xs)"

text \<open>
  The dictionary \<open>normalized_profile\<close> of \<open>generate_recommendations\<close>, serialised with
  \<open>sort_keys=True\<close>: the keys come out in alphabetical order. Without a budget the bounds
  are the integers 0 and 10000. The session and user identifiers are not part of it.
\<close>

definition normalized_profile_json :: "(rat \<Rightarrow> string) \<Rightarrow> user_profile \<Rightarrow> nat \<Rightarrow> bool \<Rightarrow> string" where
  "normalized_profile_json float_repr p max_recommendations safe_mode =
     ''{'' @ join '', ''
       [json_string ''budget_max'' @ '': '' @
          (case budget p of Some b \<Rightarrow> float_repr (budget_max b) | None \<Rightarrow> decimal 10000),
        json_string ''budget_min'' @ '': '' @
          (case budget p of Some b \<Rightarrow> float_repr (budget_min b) | None \<Rightarrow> decimal 0),
        json_string ''max_recommendations'' @ '': '' @ decimal max_recommendations,
        json_string ''must_have_features'' @ '': '' @
          json_list (sort (list_or_empty (must_have_features p))),
        json_string ''performance_level'' @ '': '' @
          json_string (str_or (performance_level p) ''standard''),
        json_string ''preferred_brands'' @ '': '' @
          json_list (sort (list_or_empty (preferred_brands p))),
        json_string ''purpose'' @ '': '' @ json_string (str_or (purpose p) ''general''),
        json_string ''safe_mode'' @ '': '' @ json_bool safe_mode]
     @ ''}''"

definition recommendations_cache_key :: "(rat \<Rightarrow> string) \<Rightarrow> user_profile \<Rightarrow> nat \<Rightarrow> bool \<Rightarrow> string" where
  "recommendations_cache_key float_repr p max_recommendations safe_mode =
     generate_cache_key [''recommendations'',
       normalized_profile_json float_repr p max_recommendations safe_mode]"

text \<open>
  \<open>repr\<close> of a float whose value is a whole number below \<open>10^16\<close>: its digits followed
  by \<open>.0\<close>. It is used for concrete profiles with whole-number budgets only.
\<close>

definition repr_whole_float :: "rat \<Rightarrow> string" where
  "repr_whole_float x = decimal (nat \<lfloor>x\<rfloor>) @ ''.0''"

section \<open>Catalog documents and collaborators\<close>

text \<open>
  A configuration document of the catalog. A field of a document may be missing
  (\<open>None\<close>); the two score dictionaries may also be of another type than a dictionary.
  \<open>cfg_components\<close> holds, for each component reference, its \<open>component_id\<close> if it has
  one. \<open>cfg_fallback_type\<close> is the key \<open>_fallback_type\<close> that a fallback query adds.
\<close>

datatype pydict = Dict "(string \<times> pyval) list" | NotDict

record config =
  cfg_id :: string
  cfg_name :: "string option"
  cfg_total_price :: "pyval option"
  cfg_suitability_scores :: "pydict option"
  cfg_performance_profile :: "pydict option"
  cfg_components :: "string option list"
  cfg_fallback_type :: "string option"

record component_doc =
  doc_id :: string
  doc_brand :: "string option"

record component_summary =
  cs_id :: string
  cs_type :: string
  cs_name :: string
  cs_brand :: string
  cs_price :: rat

text \<open>
  The aggregation pipelines the engine builds all have one shape: a match on the price
  range, on the two dictionaries being present and, unless all constraints are removed,
  on the two thresholds; the relevance score; the sort; the limit.
\<close>

record pipeline =
  price_gte :: rat
  price_lte :: rat
  purpose_key :: string
  min_suitability :: "rat option"
  min_performance :: "rat option"
  limit :: nat

text \<open>
  The collaborators of the engine: the two collections of the database, the helper
  \<open>_get_component_summaries\<close> (display data read from the components collection and the
  cache, taken as given), and the printing of floats. A database call may raise.
\<close>

datatype db_error = DatabaseError

record env =
  aggregate :: "pipeline \<Rightarrow> db_error + config list"
  find_by_price :: "rat \<Rightarrow> rat \<Rightarrow> nat \<Rightarrow> db_error + config list"
  find_components :: "string list \<Rightarrow> db_error + component_doc list"
  get_component_summaries :: "string option list \<Rightarrow> db_error + component_summary list"
  float_repr :: "rat \<Rightarrow> string"

text \<open>A scored candidate: the dictionary \<open>_score_configuration\<close> returns. Match reasons
  keep factor and weight, trade-offs keep type and impact; the explanation texts are
  not modelled.\<close>

record scored =
  configuration_id :: string
  name :: string
  total_price :: rat
  confidence_score :: rat
  match_reasons :: "(string \<times> rat) list"
  trade_offs :: "(string \<times> string) list"
  components :: "component_summary list"
  fallback_type :: "string option"

section \<open>Candidate retrieval\<close>

definition safe_purpose_thresholds :: "string \<rightharpoonup> rat" where
  "safe_purpose_thresholds = map_of
     [(''gaming'', 30), (''creative'', 25), (''programming'', 20), (''office'', 15), (''general'', 10)]"

definition safe_performance_thresholds :: "string \<rightharpoonup> rat" where
  "safe_performance_thresholds = map_of
     [(''basic'', 15), (''standard'', 20), (''high'', 25), (''professional'', 30)]"

definition purpose_thresholds :: "string \<rightharpoonup> rat" where
  "purpose_thresholds = map_of
     [(''gaming'', 60), (''creative'', 55), (''programming'', 50), (''office'', 45), (''general'', 40)]"

definition performance_thresholds :: "string \<rightharpoonup> rat" where
  "performance_thresholds = map_of
     [(''basic'', 30), (''standard'', 45), (''high'', 60), (''professional'', 75)]"

text \<open>The loop that removes duplicates by \<open>_id\<close>, keeping the first occurrence.\<close>

fun unique_configs :: "config list \<Rightarrow> string list \<Rightarrow> config list" where
  "unique_configs [] seen_ids = []"
| "unique_configs (c # cs) seen_ids =
     (if cfg_id c \<in> set seen_ids then unique_configs cs seen_ids
      else c # unique_configs cs (cfg_id c # seen_ids))"

text \<open>
  The body of the first \<open>try\<close> of \<open>generate_recommendations\<close>: the primary query and,
  when it returns fewer than \<open>max_recommendations\<close> documents, the broadened one.
\<close>

definition intelligent_query :: "env \<Rightarrow> user_profile \<Rightarrow> budget \<Rightarrow> nat \<Rightarrow> bool \<Rightarrow> db_error + config list" where
  "intelligent_query e p b max_recommendations safe_mode =
     (let min_suit = (if safe_mode then dict_get safe_purpose_thresholds (purpose p) 10
                      else dict_get purpose_thresholds (purpose p) 40);
          min_perf = (if safe_mode then dict_get safe_performance_thresholds (performance_level p) 15
                      else dict_get performance_thresholds (performance_level p) 40);
          primary = \<lparr>price_gte = budget_min b, price_lte = budget_max b, purpose_key = purpose p,
                     min_suitability = Some min_suit, min_performance = Some min_perf,
                     limit = max_recommendations + 20\<rparr>
      in case aggregate e primary of
           Inl err \<Rightarrow> Inl err
         | Inr configs \<Rightarrow>
             if length configs < max_recommendations then
               let fallback_pipeline =
                     \<lparr>price_gte = budget_min b, price_lte = budget_max b, purpose_key = purpose p,
                      min_suitability = Some (max 20 (min_suit - 20)),
                      min_performance = Some (max 20 (min_perf - 20)),
                      limit = max_recommendations + 15\<rparr>
               in case aggregate e fallback_pipeline of
                    Inl err \<Rightarrow> Inl err
                  | Inr fallback_configs \<Rightarrow>
                      Inr (take (max_recommendations + 20) (unique_configs (configs @ fallback_configs) []))
             else Inr configs)"

text \<open>With the handler: when the aggregation raises, the simple price query is used.\<close>

definition strict_query :: "env \<Rightarrow> user_profile \<Rightarrow> budget \<Rightarrow> nat \<Rightarrow> bool \<Rightarrow> db_error + config list" where
  "strict_query e p b max_recommendations safe_mode =
     (case intelligent_query e p b max_recommendations safe_mode of
        Inr configs \<Rightarrow> Inr configs
      | Inl err \<Rightarrow> find_by_price e (budget_min b) (budget_max b) (max_recommendations + 10))"

text \<open>\<open>int(x)\<close> on a number: truncation towards zero.\<close>

definition py_int :: "rat \<Rightarrow> int" where
  "py_int x = (if x \<ge> 0 then \<lfloor>x\<rfloor> else \<lceil>x\<rceil>)"

text \<open>The conditional expression that chooses \<open>_fallback_type\<close> in \<open>_try_fallback_query\<close>.\<close>

definition fallback_tag :: "string list option \<Rightarrow> user_profile \<Rightarrow> bool \<Rightarrow> bool \<Rightarrow> bool \<Rightarrow> string" where
  "fallback_tag preferred_brands_arg p relaxed_performance expanded_budget no_constraints =
     (if preferred_brands_arg = None \<and> list_or_empty (preferred_brands p) \<noteq> [] then ''preferred_brands''
      else if relaxed_performance then ''relaxed_performance''
      else if expanded_budget then ''expanded_budget''
      else if no_constraints then ''no_constraints''
      else ''original'')"

text \<open>
  \<open>_try_fallback_query\<close>. Its handler turns every exception (a missing budget, a failing
  aggregation) into the empty list. \<open>brands_to_use\<close> is computed by the source and never
  used in the query, so it does not appear.
\<close>

definition fallback_pipeline_of :: "user_profile \<Rightarrow> budget \<Rightarrow> nat \<Rightarrow> bool \<Rightarrow> bool \<Rightarrow> bool \<Rightarrow> pipeline" where
  "fallback_pipeline_of p b max_recommendations relaxed_performance expanded_budget no_constraints =
     (let min_suit0 = dict_get purpose_thresholds (purpose p) 40;
          min_perf0 = dict_get performance_thresholds (performance_level p) 40;
          min_suit = (if relaxed_performance then max 20 (min_suit0 - 20) else min_suit0);
          min_perf = (if relaxed_performance then max 20 (min_perf0 - 20) else min_perf0);
          budget_range = budget_max b - budget_min b;
          expansion = of_int (py_int (budget_range * (15 / 100)));
          lo = (if expanded_budget then max 0 (budget_min b - expansion) else budget_min b);
          hi = (if expanded_budget then budget_max b + expansion else budget_max b)
      in \<lparr>price_gte = lo, price_lte = hi, purpose_key = purpose p,
          min_suitability = (if no_constraints then None else Some min_suit),
          min_performance = (if no_constraints then None else Some min_perf),
          limit = max_recommendations + 10\<rparr>)"

definition try_fallback_query ::
  "env \<Rightarrow> user_profile \<Rightarrow> nat \<Rightarrow> string list option \<Rightarrow> bool \<Rightarrow> bool \<Rightarrow> bool \<Rightarrow> config list" where
  "try_fallback_query e p max_recommendations preferred_brands_arg relaxed_performance expanded_budget no_constraints =
     (case budget p of
        None \<Rightarrow> []
      | Some b \<Rightarrow>
          (case aggregate e (fallback_pipeline_of p b max_recommendations relaxed_performance
                               expanded_budget no_constraints) of
             Inl err \<Rightarrow> []
           | Inr configs \<Rightarrow>
               map (\<lambda>c. c\<lparr>cfg_fallback_type :=
                      Some (fallback_tag preferred_brands_arg p relaxed_performance expanded_budget
                              no_constraints)\<rparr>) configs))"

text \<open>
  The progressive fallback of \<open>generate_recommendations\<close>. Each attempt is announced by
  a \<open>[FALLBACK n]\<close> warning; the trace returned with the configurations lists the stages
  attempted, in the order of the warnings, each with what its query returned.
\<close>

datatype stage = RelaxPreferredBrands | RelaxPerformance | ExpandBudget | RemoveAllConstraints

definition stage_query :: "env \<Rightarrow> user_profile \<Rightarrow> nat \<Rightarrow> stage \<Rightarrow> config list" where
  "stage_query e p n s =
     (case s of
        RelaxPreferredBrands \<Rightarrow> try_fallback_query e p n None False False False
      | RelaxPerformance \<Rightarrow> try_fallback_query e p n None True False False
      | ExpandBudget \<Rightarrow> try_fallback_query e p n None False True False
      | RemoveAllConstraints \<Rightarrow> try_fallback_query e p n None False False True)"

text \<open>One \<open>if not configs:\<close> block: attempt the stage, keep its result if it is not empty.\<close>

definition attempt :: "env \<Rightarrow> user_profile \<Rightarrow> nat \<Rightarrow> stage \<Rightarrow>
    config list \<times> (stage \<times> config list) list \<Rightarrow> config list \<times> (stage \<times> config list) list" where
  "attempt e p n s st =
     (case st of (configs, tr) \<Rightarrow>
        let fallback_configs = stage_query e p n s
        in (if fallback_configs \<noteq> [] then fallback_configs else configs, tr @ [(s, fallback_configs)]))"

definition progressive_fallback ::
  "env \<Rightarrow> user_profile \<Rightarrow> nat \<Rightarrow> config list \<Rightarrow> config list \<times> (stage \<times> config list) list" where
  "progressive_fallback e p n configs =
     (if configs \<noteq> [] then (configs, [])
      else
        let st1 = (if list_or_empty (preferred_brands p) \<noteq> []
                   then attempt e p n RelaxPreferredBrands (configs, []) else (configs, []));
            st2 = (if fst st1 = [] then attempt e p n RelaxPerformance st1 else st1);
            st3 = (if fst st2 = [] then attempt e p n ExpandBudget st2 else st2);
            st4 = (if fst st3 = [] then attempt e p n RemoveAllConstraints st3 else st3)
        in st4)"

section \<open>Scorer\<close>

text \<open>Sequencing of computations that may raise.\<close>

definition then_res :: "'e + 'a \<Rightarrow> ('a \<Rightarrow> 'e + 'b) \<Rightarrow> 'e + 'b" where
  "then_res m f = (case m of Inl err \<Rightarrow> Inl err | Inr v \<Rightarrow> f v)"

text \<open>What can end \<open>_score_configuration\<close> in its handler.\<close>

datatype score_error = Python py_error | Database db_error

definition check_budget_constraints :: "rat \<Rightarrow> budget \<Rightarrow> bool" where
  "check_budget_constraints price b = (budget_min b \<le> price \<and> price \<le> budget_max b)"

text \<open>\<open>str.upper\<close>, on the letters a to z.\<close>

definition upper_char :: "char \<Rightarrow> char" where
  "upper_char c = (if CHR ''a'' \<le> c \<and> c \<le> CHR ''z'' then char_of (of_char c - (32::nat)) else c)"

definition upper :: "string \<Rightarrow> string" where
  "upper s = map upper_char s"

definition calculate_brand_preference_bonus ::
  "env \<Rightarrow> string option list \<Rightarrow> string list \<Rightarrow> db_error + rat" where
  "calculate_brand_preference_bonus e comps brands =
     (if brands = [] then Inr 0
      else
        let component_ids = List.map_filter (\<lambda>c. c) comps in
        if component_ids = [] then Inr 0
        else
          case find_components e component_ids of
            Inl err \<Rightarrow> Inl err
          | Inr component_docs \<Rightarrow>
              let matching_brands =
                    length (filter (\<lambda>doc. upper (case doc_brand doc of Some br \<Rightarrow> br | None \<Rightarrow> [])
                                            \<in> set (map upper brands)) component_docs);
                  total_components = length component_docs
              in if total_components = 0 then Inr 0
                 else Inr (of_nat matching_brands / of_nat total_components * 100))"

definition level_requirements :: "string \<rightharpoonup> rat" where
  "level_requirements = map_of [(''basic'', 30), (''standard'', 50), (''high'', 70), (''professional'', 85)]"

definition purpose_multiplier :: "string \<rightharpoonup> rat" where
  "purpose_multiplier = map_of
     [(''gaming'', 1), (''creative'', 95 / 100), (''programming'', 9 / 10), (''office'', 85 / 100),
      (''general'', 9 / 10)]"

definition cpu_factor :: "string \<rightharpoonup> rat" where
  "cpu_factor = map_of
     [(''gaming'', 8 / 10), (''creative'', 85 / 100), (''programming'', 9 / 10), (''office'', 7 / 10),
      (''general'', 75 / 100)]"

definition gpu_factor :: "string \<rightharpoonup> rat" where
  "gpu_factor = map_of
     [(''gaming'', 9 / 10), (''creative'', 9 / 10), (''programming'', 6 / 10), (''office'', 5 / 10),
      (''general'', 7 / 10)]"

definition ram_factor :: "string \<rightharpoonup> rat" where
  "ram_factor = map_of
     [(''gaming'', 7 / 10), (''creative'', 8 / 10), (''programming'', 8 / 10), (''office'', 6 / 10),
      (''general'', 7 / 10)]"

text \<open>One component check of \<open>_identify_trade_offs\<close>: the comparison raises on a value
  that is not a number.\<close>

definition below_threshold :: "pyval \<Rightarrow> rat \<Rightarrow> (string \<times> string) \<Rightarrow> py_error + (string \<times> string) list" where
  "below_threshold v threshold entry =
     (case v of NonNum \<Rightarrow> Inl TypeError
      | Num x \<Rightarrow> Inr (if x < threshold then [entry] else []))"

definition identify_trade_offs ::
  "rat \<Rightarrow> budget \<Rightarrow> (string \<rightharpoonup> pyval) \<Rightarrow> string \<Rightarrow> string \<Rightarrow> py_error + (string \<times> string) list" where
  "identify_trade_offs price b prof required_level purp =
     (let budget_range = budget_max b - budget_min b;
          budget_center = (budget_min b + budget_max b) / 2;
          threshold_factor = max (1 / 10) (min (3 / 10) (500 / max budget_range 1));
          required_min = dict_get level_requirements required_level 50
      in
      then_res
        (if price > budget_center * (1 + threshold_factor) then
           (if budget_center = 0 then Inl ZeroDivisionError else Inr [(''budget'', ''negative'')])
         else if price < budget_min b * (11 / 10) then Inr [(''performance'', ''neutral'')]
         else Inr [])
        (\<lambda>t_budget.
      then_res
        (below_threshold (dict_get prof ''overall_performance'' (Num 50))
           (required_min * dict_get purpose_multiplier purp (9 / 10)) (''performance'', ''negative''))
        (\<lambda>t_overall.
      then_res
        (below_threshold (dict_get prof ''cpu_performance'' (Num 50))
           (required_min * dict_get cpu_factor purp (75 / 100)) (''cpu'', ''negative''))
        (\<lambda>t_cpu.
      then_res
        (below_threshold (dict_get prof ''gpu_performance'' (Num 50))
           (required_min * dict_get gpu_factor purp (7 / 10)) (''gpu'', ''negative''))
        (\<lambda>t_gpu.
      then_res
        (below_threshold (dict_get prof ''ram_performance'' (Num 50))
           (required_min * dict_get ram_factor purp (7 / 10)) (''memory'', ''negative''))
        (\<lambda>t_ram. Inr (t_budget @ t_overall @ t_cpu @ t_gpu @ t_ram)))))))"

text \<open>\<open>round(x, 1)\<close>, with a tie going to the even digit.\<close>

definition round_half_even :: "rat \<Rightarrow> int" where
  "round_half_even x =
     (let f = \<lfloor>x\<rfloor>; d = x - of_int f
      in if d < 1 / 2 then f else if d > 1 / 2 then f + 1 else if even f then f else f + 1)"

definition round1 :: "rat \<Rightarrow> rat" where
  "round1 x = of_int (round_half_even (x * 10)) / 10"

text \<open>The scores and match reasons of the safe branch: fixed weights.\<close>

definition safe_scoring ::
  "env \<Rightarrow> config \<Rightarrow> user_profile \<Rightarrow> budget \<Rightarrow> rat \<Rightarrow> (string \<rightharpoonup> pyval) \<Rightarrow> (string \<rightharpoonup> pyval)
     \<Rightarrow> score_error + rat \<times> (string \<times> rat) list" where
  "safe_scoring e c p b config_price suit prof =
     (let w = base_weights;
          purpose_score = calculate_purpose_score_safe (purpose p) suit;
          budget_fit = calculate_budget_fit_safe (Num config_price) b;
          performance_score = calculate_performance_score_safe (performance_level p) prof;
          confidence = purpose_score * w_purpose w + budget_fit * w_budget w
                       + performance_score * w_performance w;
          reasons = [(''purpose_alignment'', w_purpose w), (''budget_fit'', w_budget w),
                     (''performance_match'', w_performance w)]
      in if list_or_empty (preferred_brands p) \<noteq> [] then
           (case calculate_brand_preference_bonus e (cfg_components c) (list_or_empty (preferred_brands p)) of
              Inl err \<Rightarrow> Inl (Database err)
            | Inr brand_bonus \<Rightarrow>
                if brand_bonus > 0
                then Inr (confidence + brand_bonus * w_brand w, reasons @ [(''brand_preference'', w_brand w)])
                else Inr (confidence, reasons))
         else Inr (confidence, reasons))"

text \<open>
  The scores and match reasons of the normal branch: dynamic weights. The performance
  explanation formats the overall performance as a number and raises when it is not one.
  The scorer's own arithmetic is exact, and it takes the weights in exact arithmetic too.
\<close>

definition normal_scoring ::
  "env \<Rightarrow> config \<Rightarrow> user_profile \<Rightarrow> budget \<Rightarrow> rat \<Rightarrow> (string \<rightharpoonup> pyval) \<Rightarrow> (string \<rightharpoonup> pyval)
     \<Rightarrow> score_error + rat \<times> (string \<times> rat) list" where
  "normal_scoring e c p b config_price suit prof =
     (let w = calculate_dynamic_weights exact_arith (budget_attr_of (budget p)) (performance_level p)
                (purpose p) in
      case calculate_purpose_score (purpose p) suit of
        Inl err \<Rightarrow> Inl (Python err)
      | Inr purpose_score \<Rightarrow>
          let (confidence1, reasons1) =
                (if purpose_score > 0
                 then (purpose_score * w_purpose w, [(''purpose_alignment'', w_purpose w)])
                 else (0, []));
              budget_fit = calculate_budget_fit (Num config_price) b;
              performance_score = calculate_performance_score (performance_level p) prof (purpose p);
              confidence = confidence1 + budget_fit * w_budget w + performance_score * w_performance w;
              reasons = reasons1 @ [(''budget_fit'', w_budget w), (''performance_match'', w_performance w)]
          in case dict_get prof ''overall_performance'' (Num 50) of
               NonNum \<Rightarrow> Inl (Python TypeError)
             | Num overall_performance \<Rightarrow>
                 if list_or_empty (preferred_brands p) \<noteq> [] then
                   (case calculate_brand_preference_bonus e (cfg_components c)
                           (list_or_empty (preferred_brands p)) of
                      Inl err \<Rightarrow> Inl (Database err)
                    | Inr brand_bonus \<Rightarrow>
                        if brand_bonus > 0
                        then let brand_weight = min (brand_bonus * (1 / 10)) (w_brand w)
                             in Inr (confidence + brand_bonus * brand_weight,
                                     reasons @ [(''brand_preference'', brand_weight)])
                        else Inr (confidence, reasons))
                 else Inr (confidence, reasons))"

definition fallback_note :: "string option \<Rightarrow> (string \<times> rat) list" where
  "fallback_note ft =
     (case ft of
        None \<Rightarrow> []
      | Some t \<Rightarrow>
          if t \<in> {''preferred_brands'', ''relaxed_performance'', ''expanded_budget'', ''no_constraints''}
          then [(''fallback_note'', 0)] else [])"

text \<open>
  The body of \<open>_score_configuration\<close> inside its \<open>try\<close>: \<open>Inr None\<close> is an early
  \<open>return None\<close>, \<open>Inl\<close> an exception.
\<close>

definition score_configuration_body ::
  "env \<Rightarrow> config \<Rightarrow> user_profile \<Rightarrow> bool \<Rightarrow> score_error + scored option" where
  "score_configuration_body e c p safe_mode =
     (case (case cfg_total_price c of None \<Rightarrow> Num 0 | Some v \<Rightarrow> v) of
        NonNum \<Rightarrow> Inr None
      | Num config_price \<Rightarrow>
          if config_price \<le> 0 then Inr None
          else
            case (case cfg_suitability_scores c of None \<Rightarrow> Dict [] | Some d \<Rightarrow> d) of
              NotDict \<Rightarrow> Inr None
            | Dict suit \<Rightarrow>
                case (case cfg_performance_profile c of None \<Rightarrow> Dict [] | Some d \<Rightarrow> d) of
                  NotDict \<Rightarrow> Inr None
                | Dict prof \<Rightarrow>
                    case budget p of
                      None \<Rightarrow> Inl (Python AttributeError)
                    | Some b \<Rightarrow>
                        if \<not> check_budget_constraints config_price b then Inr None
                        else
                          then_res
                            (if safe_mode then safe_scoring e c p b config_price (map_of suit) (map_of prof)
                             else normal_scoring e c p b config_price (map_of suit) (map_of prof))
                            (\<lambda>(confidence, reasons).
                          then_res
                            (case identify_trade_offs config_price b (map_of prof) (performance_level p)
                                    (purpose p) of
                               Inl err \<Rightarrow> Inl (Python err) | Inr t \<Rightarrow> Inr t)
                            (\<lambda>trade_offs_found.
                          then_res
                            (case get_component_summaries e (cfg_components c) of
                               Inl err \<Rightarrow> Inl (Database err) | Inr cs \<Rightarrow> Inr cs)
                            (\<lambda>component_summaries.
                               Inr (Some
                                 \<lparr>configuration_id = cfg_id c,
                                  name = (case cfg_name c of Some nm \<Rightarrow> nm
                                          | None \<Rightarrow> ''Unnamed Configuration''),
                                  total_price = config_price,
                                  confidence_score = round1 (max 0 (min 100 confidence)),
                                  match_reasons = reasons @ fallback_note (cfg_fallback_type c),
                                  trade_offs = trade_offs_found,
                                  components = component_summaries,
                                  fallback_type = cfg_fallback_type c\<rparr>)))))"

text \<open>\<open>_score_configuration\<close>: the handler returns \<open>None\<close>.\<close>

definition score_configuration :: "env \<Rightarrow> config \<Rightarrow> user_profile \<Rightarrow> bool \<Rightarrow> scored option" where
  "score_configuration e c p safe_mode =
     (case score_configuration_body e c p safe_mode of Inl err \<Rightarrow> None | Inr r \<Rightarrow> r)"

section \<open>The engine's operation\<close>

text \<open>
  The cache of \<open>app/core/cache.py\<close>, in memory: a dictionary under prefixed keys. Expiry
  needs the clock; the store holds the entries that have not expired.
\<close>

type_synonym cache_store = "string \<rightharpoonup> scored list"

definition cache_get :: "cache_store \<Rightarrow> string \<Rightarrow> scored list option" where
  "cache_get store key = store (''pc_rec:'' @ key)"

definition cache_set :: "cache_store \<Rightarrow> string \<Rightarrow> scored list \<Rightarrow> cache_store" where
  "cache_set store key v = store(''pc_rec:'' @ key \<mapsto> v)"

datatype engine_error =
    NoConfigurationsAvailable
  | NoConfigurationsMeetRequirements
  | Raised py_error
  | CatalogFailed db_error

text \<open>Scoring, ranking and selection: from the scoring loop to the second \<open>raise\<close>.\<close>

definition rank_and_select :: "env \<Rightarrow> user_profile \<Rightarrow> nat \<Rightarrow> bool \<Rightarrow> config list \<Rightarrow> engine_error + scored list" where
  "rank_and_select e p max_recommendations safe_mode configs =
     (let scored_configs = List.map_filter (\<lambda>c. score_configuration e c p safe_mode) configs;
          sorted_configs = sort_key (\<lambda>x. - confidence_score x) scored_configs;
          top_recommendations = take max_recommendations sorted_configs
      in if top_recommendations = [] \<and> sorted_configs = [] then Inl NoConfigurationsMeetRequirements
         else Inr top_recommendations)"

text \<open>A cache miss: retrieval, progressive fallback, the first \<open>raise\<close>, scoring.\<close>

definition compute_recommendations :: "env \<Rightarrow> user_profile \<Rightarrow> budget \<Rightarrow> nat \<Rightarrow> bool \<Rightarrow> engine_error + scored list" where
  "compute_recommendations e p b max_recommendations safe_mode =
     (case strict_query e p b max_recommendations safe_mode of
        Inl err \<Rightarrow> Inl (CatalogFailed err)
      | Inr configs0 \<Rightarrow>
          let configs = fst (progressive_fallback e p max_recommendations configs0)
          in if configs = [] then Inl NoConfigurationsAvailable
             else rank_and_select e p max_recommendations safe_mode configs)"

text \<open>
  \<open>generate_recommendations\<close>: the result (the list and the cache-hit flag, or the
  exception) and the cache afterwards. A cached value counts when it is a non-empty
  list. Both log lines after the lookup read \<open>user_profile.budget.min\<close>, so a profile
  without a budget raises there.
\<close>

definition generate_recommendations ::
  "env \<Rightarrow> cache_store \<Rightarrow> user_profile \<Rightarrow> nat \<Rightarrow> bool \<Rightarrow> (engine_error + scored list \<times> bool) \<times> cache_store" where
  "generate_recommendations e store p max_recommendations safe_mode =
     (let cache_key = recommendations_cache_key (float_repr e) p max_recommendations safe_mode in
      case budget p of
        None \<Rightarrow> (Inl (Raised AttributeError), store)
      | Some b \<Rightarrow>
          (case cache_get store cache_key of
             Some (r # rs) \<Rightarrow> (Inr (r # rs, True), store)
           | _ \<Rightarrow>
               (case compute_recommendations e p b max_recommendations safe_mode of
                  Inl err \<Rightarrow> (Inl err, store)
                | Inr top_recommendations \<Rightarrow>
                    (Inr (top_recommendations, False), cache_set store cache_key top_recommendations))))"

section \<open>A catalog held in a list\<close>

text \<open>
  A reference implementation of the database collaborator over a list of documents,
  following the query language's documented meaning: a comparison matches numbers
  only, a relevance score is null when an operand is missing, the multiplication fails
  on an operand of another type, and documents are ordered by relevance descending
  (null last), then by price ascending.
\<close>

definition dict_lookup :: "pydict option \<Rightarrow> string \<Rightarrow> pyval option" where
  "dict_lookup d k = (case d of Some (Dict l) \<Rightarrow> map_of l k | _ \<Rightarrow> None)"

definition num_at_least :: "pyval option \<Rightarrow> rat option \<Rightarrow> bool" where
  "num_at_least v threshold =
     (case threshold of
        None \<Rightarrow> True
      | Some t \<Rightarrow> (case v of Some (Num x) \<Rightarrow> x \<ge> t | _ \<Rightarrow> False))"

definition price_in :: "rat \<Rightarrow> rat \<Rightarrow> config \<Rightarrow> bool" where
  "price_in lo hi c = (case cfg_total_price c of Some (Num x) \<Rightarrow> lo \<le> x \<and> x \<le> hi | _ \<Rightarrow> False)"

definition matches :: "pipeline \<Rightarrow> config \<Rightarrow> bool" where
  "matches q c =
     (cfg_suitability_scores c \<noteq> None \<and> cfg_performance_profile c \<noteq> None
      \<and> price_in (price_gte q) (price_lte q) c
      \<and> num_at_least (dict_lookup (cfg_suitability_scores c) (purpose_key q)) (min_suitability q)
      \<and> num_at_least (dict_lookup (cfg_performance_profile c) ''overall_performance'') (min_performance q))"

definition relevance_score :: "string \<Rightarrow> config \<Rightarrow> db_error + rat option" where
  "relevance_score purp c =
     (case (dict_lookup (cfg_suitability_scores c) purp,
            dict_lookup (cfg_performance_profile c) ''overall_performance'') of
        (Some NonNum, _) \<Rightarrow> Inl DatabaseError
      | (_, Some NonNum) \<Rightarrow> Inl DatabaseError
      | (Some (Num s), Some (Num r)) \<Rightarrow> Inr (Some (s * (6 / 10) + r * (4 / 10)))
      | _ \<Rightarrow> Inr None)"

definition price_of :: "config \<Rightarrow> rat" where
  "price_of c = (case cfg_total_price c of Some (Num x) \<Rightarrow> x | _ \<Rightarrow> 0)"

definition relevance_of :: "string \<Rightarrow> config \<Rightarrow> rat" where
  "relevance_of purp c = (case relevance_score purp c of Inr (Some r) \<Rightarrow> r | _ \<Rightarrow> 0)"

definition list_aggregate :: "config list \<Rightarrow> pipeline \<Rightarrow> db_error + config list" where
  "list_aggregate catalog q =
     (let matched = filter (matches q) catalog in
      if list_ex (\<lambda>c. relevance_score (purpose_key q) c = Inl DatabaseError) matched then Inl DatabaseError
      else
        let by_price = sort_key price_of matched;
            with_score = filter (\<lambda>c. relevance_score (purpose_key q) c \<noteq> Inr None) by_price;
            without_score = filter (\<lambda>c. relevance_score (purpose_key q) c = Inr None) by_price
        in Inr (take (limit q)
                  (sort_key (\<lambda>c. - relevance_of (purpose_key q) c) with_score @ without_score)))"

definition list_find_by_price :: "config list \<Rightarrow> rat \<Rightarrow> rat \<Rightarrow> nat \<Rightarrow> db_error + config list" where
  "list_find_by_price catalog lo hi n = Inr (take n (filter (price_in lo hi) catalog))"

definition list_env :: "config list \<Rightarrow> env" where
  "list_env catalog =
     \<lparr>aggregate = list_aggregate catalog,
      find_by_price = list_find_by_price catalog,
      find_components = (\<lambda>ids. Inr []),
      get_component_summaries = (\<lambda>comps. Inr []),
      float_repr = repr_whole_float\<rparr>"

text \<open>The number \<open>n\<close> of a stage in its \<open>[FALLBACK n]\<close> warning.\<close>

definition stage_number :: "stage \<Rightarrow> nat" where
  "stage_number s =
     (case s of RelaxPreferredBrands \<Rightarrow> 1 | RelaxPerformance \<Rightarrow> 2
      | ExpandBudget \<Rightarrow> 3 | RemoveAllConstraints \<Rightarrow> 4)"

section \<open>Concrete profiles and catalogs\<close>

text \<open>A gaming profile with budget [200, 350], without and with a preferred brand.\<close>

definition profile_gaming :: user_profile where
  "profile_gaming =
     \<lparr>purpose = ''gaming'', budget = Some \<lparr>budget_min = 200, budget_max = 350\<rparr>,
      performance_level = ''standard'', preferred_brands = Some [], must_have_features = Some [],
      session_id = ''session_1'', user_id = None\<rparr>"

definition profile_nvidia :: user_profile where
  "profile_nvidia = profile_gaming\<lparr>preferred_brands := Some [''NVIDIA'']\<rparr>"

definition profile_nvidia_twice :: user_profile where
  "profile_nvidia_twice = profile_gaming\<lparr>preferred_brands := Some [''NVIDIA'', ''NVIDIA'']\<rparr>"

definition profile_two_brands :: user_profile where
  "profile_two_brands = profile_gaming\<lparr>preferred_brands := Some [''NVIDIA'', ''AMD'']\<rparr>"

definition profile_two_brands_other_session :: user_profile where
  "profile_two_brands_other_session =
     profile_gaming\<lparr>preferred_brands := Some [''AMD'', ''NVIDIA''], session_id := ''session_2'',
                    user_id := Some ''user_7''\<rparr>"

definition config_of :: "string \<Rightarrow> rat \<Rightarrow> rat \<Rightarrow> rat \<Rightarrow> config" where
  "config_of ident price gaming_suitability overall =
     \<lparr>cfg_id = ident, cfg_name = Some ''PC'', cfg_total_price = Some (Num price),
      cfg_suitability_scores = Some (Dict [(''gaming'', Num gaming_suitability)]),
      cfg_performance_profile = Some (Dict [(''overall_performance'', Num overall)]),
      cfg_components = [], cfg_fallback_type = None\<rparr>"

text \<open>Inside the budget and above the thresholds; inside the budget and below every
  threshold; above the thresholds and inside the expanded range only; priced 450.\<close>

definition config_in_budget :: config where
  "config_in_budget = config_of ''c1'' 300 90 85"

definition config_low_score :: config where
  "config_low_score = config_of ''c2'' 300 10 10"

definition config_over_budget :: config where
  "config_over_budget = config_of ''c3'' 360 90 85"

definition config_450 :: config where
  "config_450 = config_of ''c4'' 450 90 85"

text \<open>An arithmetic that rounds every literal and quotient up by the largest relative
  error allowed, and sums exactly.\<close>

definition rounding_up :: float_arith where
  "rounding_up = \<lparr>fl = (\<lambda>x. x * (1 + 1 / 2 ^ 53)), fsum = sum_list\<rparr>"

text \<open>What the scorer returns for \<open>config_low_score\<close> reached through the last fallback
  stage, and for \<open>config_in_budget\<close> reached through the primary query.\<close>

definition scored_low_score :: scored where
  "scored_low_score =
     \<lparr>configuration_id = ''c2'', name = ''PC'', total_price = 300, confidence_score = 621 / 10,
      match_reasons = [(''purpose_alignment'', 9 / 20), (''budget_fit'', 1 / 5),
                       (''performance_match'', 3 / 10), (''fallback_note'', 0)],
      trade_offs = [(''performance'', ''negative'')], components = [],
      fallback_type = Some ''no_constraints''\<rparr>"

definition scored_in_budget :: scored where
  "scored_in_budget =
     \<lparr>configuration_id = ''c1'', name = ''PC'', total_price = 300, confidence_score = 100,
      match_reasons = [(''purpose_alignment'', 9 / 20), (''budget_fit'', 1 / 5),
                       (''performance_match'', 3 / 10)],
      trade_offs = [], components = [], fallback_type = None\<rparr>"



section \<open>Facts about rounding and the weights\<close>

lemma abs_rel_bounds:
  fixes f x u :: rat
  assumes "\<bar>f - x\<bar> \<le> x * u"
  shows "x * (1 - u) \<le> f \<and> f \<le> x * (1 + u)"
  using assms by (simp add: abs_le_iff algebra_simps)

lemma fl_bounds:
  assumes "float_ok fa" and "1 / 1000 \<le> x" and "x \<le> 1000"
  shows "x * (1 - 1 / 2 ^ 53) \<le> fl fa x \<and> fl fa x \<le> x * (1 + 1 / 2 ^ 53)"
proof -
  from assms have "\<bar>fl fa x - x\<bar> \<le> x / 2 ^ 53" by (simp add: float_ok_def)
  then have "\<bar>fl fa x - x\<bar> \<le> x * (1 / 2 ^ 53)" by simp
  then show ?thesis by (rule abs_rel_bounds)
qed

lemma fl_literal:
  assumes "float_ok fa" and "5 / 100 \<le> d" and "d \<le> 45 / 100"
  shows "4 / 100 \<le> fl fa d \<and> fl fa d \<le> 1 / 2"
proof -
  have r: "1 / 1000 \<le> d" "d \<le> 1000" using assms(2,3) by simp_all
  from fl_bounds[OF assms(1) r] have lo: "d * (1 - 1 / 2 ^ 53) \<le> fl fa d"
    and hi: "fl fa d \<le> d * (1 + 1 / 2 ^ 53)" by simp_all
  have "4 / 100 \<le> (5 / 100) * (1 - 1 / 2 ^ 53 :: rat)" by simp
  also have "\<dots> \<le> d * (1 - 1 / 2 ^ 53)" using assms(2) by (intro mult_right_mono) simp_all
  finally have 1: "4 / 100 \<le> fl fa d" using lo by simp
  have "d * (1 + 1 / 2 ^ 53) \<le> (45 / 100) * (1 + 1 / 2 ^ 53 :: rat)"
    using assms(3) by (intro mult_right_mono) simp_all
  also have "\<dots> \<le> 1 / 2" by simp
  finally have 2: "fl fa d \<le> 1 / 2" using hi by simp
  from 1 2 show ?thesis ..
qed

lemma float_weights_in_range:
  assumes "float_ok fa"
      and "5 / 100 \<le> w_purpose w" "w_purpose w \<le> 45 / 100" "5 / 100 \<le> w_budget w" "w_budget w \<le> 45 / 100"
      and "5 / 100 \<le> w_performance w" "w_performance w \<le> 45 / 100" "5 / 100 \<le> w_brand w" "w_brand w \<le> 45 / 100"
  shows "weights_in_range (float_weights fa w)"
  using fl_literal[OF assms(1,2,3)] fl_literal[OF assms(1,4,5)] fl_literal[OF assms(1,6,7)]
        fl_literal[OF assms(1,8,9)]
  by (simp add: weights_in_range_def float_weights_def)

lemma base_in_range: "float_ok fa \<Longrightarrow> weights_in_range (float_weights fa base_weights)"
  by (rule float_weights_in_range) (simp_all add: base_weights_def)

lemma tightness_in_range: "float_ok fa \<Longrightarrow> weights_in_range (tightness_weights fa r)"
  unfolding tightness_weights_def
  by (auto intro!: float_weights_in_range simp: base_weights_def)

lemma purpose_in_range:
  "float_ok fa \<Longrightarrow> purpose_weights k = Some pw \<Longrightarrow> weights_in_range (float_weights fa pw)"
  by (rule float_weights_in_range) (auto simp: purpose_weights_def split: if_splits)

lemma performance_literal:
  "5 / 100 \<le> dict_get performance_weights l (2 / 10) \<and> dict_get performance_weights l (2 / 10) \<le> 45 / 100"
  by (auto simp: performance_weights_def dict_get_def)

lemma abs_sum4:
  fixes a b c d :: rat
  shows "\<bar>a + b + c + d\<bar> \<le> \<bar>a\<bar> + \<bar>b\<bar> + \<bar>c\<bar> + \<bar>d\<bar>"
  by simp

lemma normalised_sum_bound:
  fixes w1 w2 w3 w4 T e u :: rat
  assumes pos: "0 \<le> w1" "0 \<le> w2" "0 \<le> w3" "0 \<le> w4"
      and S: "0 < w1 + w2 + w3 + w4"
      and T: "\<bar>T - (w1 + w2 + w3 + w4)\<bar> \<le> e * (w1 + w2 + w3 + w4)"
      and e: "0 \<le> e" "e < 1" and u: "0 \<le> u"
      and n: "\<bar>n1 - w1 / T\<bar> \<le> u * (w1 / T)" "\<bar>n2 - w2 / T\<bar> \<le> u * (w2 / T)"
             "\<bar>n3 - w3 / T\<bar> \<le> u * (w3 / T)" "\<bar>n4 - w4 / T\<bar> \<le> u * (w4 / T)"
  shows "\<bar>n1 + n2 + n3 + n4 - 1\<bar> \<le> (e + u) / (1 - e)"
proof -
  define S where "S = w1 + w2 + w3 + w4"
  have Spos: "0 < S" using S by (simp add: S_def)
  have Tlo: "(1 - e) * S \<le> T" using T by (simp add: S_def abs_le_iff algebra_simps)
  have "0 < (1 - e) * S" using e Spos by simp
  with Tlo have Tpos: "0 < T" by simp
  define q where "q = S / T"
  have qpos: "0 \<le> q" using Spos Tpos by (simp add: q_def)
  have q_le: "q \<le> 1 / (1 - e)"
    using Tlo Tpos e by (simp add: q_def field_simps)
  have sumq: "w1 / T + w2 / T + w3 / T + w4 / T = q"
    by (simp add: q_def S_def add_divide_distrib)
  have "\<bar>(n1 + n2 + n3 + n4) - q\<bar> = \<bar>(n1 - w1 / T) + (n2 - w2 / T) + (n3 - w3 / T) + (n4 - w4 / T)\<bar>"
    using sumq by (simp add: algebra_simps)
  also have "\<dots> \<le> \<bar>n1 - w1 / T\<bar> + \<bar>n2 - w2 / T\<bar> + \<bar>n3 - w3 / T\<bar> + \<bar>n4 - w4 / T\<bar>"
    by (rule abs_sum4)
  also have "\<dots> \<le> u * (w1 / T) + u * (w2 / T) + u * (w3 / T) + u * (w4 / T)"
    using n by linarith
  also have "\<dots> = u * (w1 / T + w2 / T + w3 / T + w4 / T)" by (simp only: distrib_left)
  also have "\<dots> = u * q" by (simp only: sumq)
  finally have d1: "\<bar>(n1 + n2 + n3 + n4) - q\<bar> \<le> u * q" .
  have "q - 1 = (S - T) / T" using Tpos by (simp add: q_def diff_divide_distrib)
  then have "\<bar>q - 1\<bar> = \<bar>S - T\<bar> / \<bar>T\<bar>" by (simp only: abs_divide)
  also have "\<dots> = \<bar>S - T\<bar> / T" using Tpos by simp
  also have "\<dots> \<le> (e * S) / T"
    using T Tpos by (simp add: S_def divide_right_mono abs_minus_commute)
  also have "\<dots> = e * q" by (simp add: q_def)
  finally have d2: "\<bar>q - 1\<bar> \<le> e * q" .
  have "\<bar>n1 + n2 + n3 + n4 - 1\<bar> \<le> \<bar>(n1 + n2 + n3 + n4) - q\<bar> + \<bar>q - 1\<bar>" by simp
  also have "\<dots> \<le> u * q + e * q" using d1 d2 by simp
  also have "\<dots> = (e + u) * q" by (simp add: algebra_simps)
  also have "\<dots> \<le> (e + u) * (1 / (1 - e))"
    using q_le e u by (intro mult_left_mono) simp_all
  finally show ?thesis by simp
qed

lemma sum4_rel:
  fixes u :: rat
  assumes "\<bar>f1 - d1\<bar> \<le> d1 * u" "\<bar>f2 - d2\<bar> \<le> d2 * u" "\<bar>f3 - d3\<bar> \<le> d3 * u" "\<bar>f4 - d4\<bar> \<le> d4 * u"
  shows "\<bar>(f1 + f2 + f3 + f4) - (d1 + d2 + d3 + d4)\<bar> \<le> (d1 + d2 + d3 + d4) * u"
proof -
  have "(f1 + f2 + f3 + f4) - (d1 + d2 + d3 + d4) = (f1 - d1) + (f2 - d2) + (f3 - d3) + (f4 - d4)"
    by simp
  also have "\<bar>\<dots>\<bar> \<le> \<bar>f1 - d1\<bar> + \<bar>f2 - d2\<bar> + \<bar>f3 - d3\<bar> + \<bar>f4 - d4\<bar>"
    by (rule abs_sum4)
  also have "\<dots> \<le> d1 * u + d2 * u + d3 * u + d4 * u"
    using assms by (intro add_mono)
  also have "\<dots> = (d1 + d2 + d3 + d4) * u" by (simp only: distrib_right)
  finally show ?thesis .
qed

lemma fl_rel:
  assumes "float_ok fa" and "1 / 1000 \<le> x" and "x \<le> 1000"
  shows "\<bar>fl fa x - x\<bar> \<le> x * (1 / 2 ^ 53)"
proof -
  from assms have "\<bar>fl fa x - x\<bar> \<le> x / 2 ^ 53" by (simp add: float_ok_def)
  then show ?thesis by simp
qed

lemma roundoff_small: "(1::rat) * (1 / 2 ^ 53) \<le> 1 / 10 ^ 6"
  by simp

lemma base_sum_bound:
  assumes ok: "float_ok fa"
  shows "\<bar>weights_sum (float_weights fa base_weights) - 1\<bar> \<le> 1 / 10 ^ 6"
proof -
  define u :: rat where "u = 1 / 2 ^ 53"
  have 1: "\<bar>fl fa (4 / 10) - 4 / 10\<bar> \<le> (4 / 10) * u" unfolding u_def by (rule fl_rel[OF ok]) simp_all
  have 2: "\<bar>fl fa (3 / 10) - 3 / 10\<bar> \<le> (3 / 10) * u" unfolding u_def by (rule fl_rel[OF ok]) simp_all
  have 3: "\<bar>fl fa (2 / 10) - 2 / 10\<bar> \<le> (2 / 10) * u" unfolding u_def by (rule fl_rel[OF ok]) simp_all
  have 4: "\<bar>fl fa (1 / 10) - 1 / 10\<bar> \<le> (1 / 10) * u" unfolding u_def by (rule fl_rel[OF ok]) simp_all
  have s: "weights_sum (float_weights fa base_weights)
        = fl fa (4 / 10) + fl fa (3 / 10) + fl fa (2 / 10) + fl fa (1 / 10)"
    by (simp add: weights_sum_def float_weights_def base_weights_def)
  have d: "(4 / 10 + 3 / 10 + 2 / 10 + 1 / 10 :: rat) = 1" by simp
  from sum4_rel[OF 1 2 3 4]
  have "\<bar>weights_sum (float_weights fa base_weights) - 1\<bar> \<le> 1 * u"
    unfolding s d .
  also have "\<dots> \<le> 1 / 10 ^ 6" unfolding u_def by (rule roundoff_small)
  finally show ?thesis .
qed

lemma quotient_range:
  fixes x T lo hi tlo thi :: rat
  assumes "lo \<le> x" "x \<le> hi" "tlo \<le> T" "T \<le> thi" "0 < tlo" "0 \<le> lo"
  shows "lo / thi \<le> x / T \<and> x / T \<le> hi / tlo"
proof
  have Tpos: "0 < T" using assms(3,5) by simp
  have xpos: "0 \<le> x" using assms(1,6) by simp
  show "lo / thi \<le> x / T" by (rule frac_le) (use assms Tpos in simp_all)
  show "x / T \<le> hi / tlo" by (rule frac_le) (use assms xpos in simp_all)
qed

lemma final_bound: "((4::rat) / 2 ^ 53 + 1 / 2 ^ 53) / (1 - 4 / 2 ^ 53) \<le> 1 / 10 ^ 6"
  by simp

lemma scale_lo: "(15::rat) / 100 \<le> (16 / 100) * (1 - 4 / 2 ^ 53)"
  by simp

lemma scale_hi: "(2::rat) * (1 + 4 / 2 ^ 53) \<le> 3"
  by simp

lemma normalised_in_range_bound:
  assumes ok: "float_ok fa" and r: "weights_in_range w"
  defines "T \<equiv> fsum fa [w_purpose w, w_budget w, w_performance w, w_brand w]"
  shows "0 < T \<and> \<bar>weights_sum (normalise_weights fa w T) - 1\<bar> \<le> 1 / 10 ^ 6"
proof -
  define a where "a = w_purpose w"
  define b where "b = w_budget w"
  define c where "c = w_performance w"
  define d where "d = w_brand w"
  define S where "S = a + b + c + d"
  define e :: rat where "e = 4 / 2 ^ 53"
  define u :: rat where "u = 1 / 2 ^ 53"
  have ra: "4 / 100 \<le> a" "a \<le> 1 / 2" and rb: "4 / 100 \<le> b" "b \<le> 1 / 2"
   and rc: "4 / 100 \<le> c" "c \<le> 1 / 2" and rd: "4 / 100 \<le> d" "d \<le> 1 / 2"
    using r by (simp_all add: weights_in_range_def a_def b_def c_def d_def)
  have Sr: "16 / 100 \<le> S" "S \<le> 2" using ra rb rc rd by (simp_all add: S_def)
  have e01: "0 \<le> e" "e < 1" "0 \<le> 1 - e" "0 \<le> 1 + e" by (simp_all add: e_def)
  have u0: "0 \<le> u" by (simp add: u_def)
  have "\<bar>fsum fa [a, b, c, d] - (a + b + c + d)\<bar> \<le> 4 * (a + b + c + d) / 2 ^ 53"
  proof -
    have "1 / 1000 \<le> a \<and> a \<le> 1000 \<and> 1 / 1000 \<le> b \<and> b \<le> 1000
          \<and> 1 / 1000 \<le> c \<and> c \<le> 1000 \<and> 1 / 1000 \<le> d \<and> d \<le> 1000"
      using ra rb rc rd by simp
    with ok show ?thesis unfolding float_ok_def by blast
  qed
  then have Terr: "\<bar>T - S\<bar> \<le> S * e"
    by (simp add: T_def a_def b_def c_def d_def S_def e_def)
  then have "S * (1 - e) \<le> T \<and> T \<le> S * (1 + e)" by (rule abs_rel_bounds)
  then have Tlo': "S * (1 - e) \<le> T" and Thi': "T \<le> S * (1 + e)" by simp_all
  have "15 / 100 \<le> (16 / 100) * (1 - e)" unfolding e_def by (rule scale_lo)
  also have "\<dots> \<le> S * (1 - e)" using Sr(1) e01(3) by (rule mult_right_mono)
  finally have Tlo: "15 / 100 \<le> T" using Tlo' by simp
  have "S * (1 + e) \<le> 2 * (1 + e)" using Sr(2) e01(4) by (rule mult_right_mono)
  also have "\<dots> \<le> 3" unfolding e_def by (rule scale_hi)
  finally have Thi: "T \<le> 3" using Thi' by simp
  have Tpos: "0 < T" using Tlo by simp
  have q: "1 / 1000 \<le> x / T \<and> x / T \<le> 1000" if "4 / 100 \<le> x" "x \<le> 1 / 2" for x
  proof -
    have "(4 / 100) / 3 \<le> x / T \<and> x / T \<le> (1 / 2) / (15 / 100)"
      by (rule quotient_range[OF that Tlo Thi]) simp_all
    then have l: "(4 / 100) / 3 \<le> x / T" and h: "x / T \<le> (1 / 2) / (15 / 100)" by blast+
    have "(1::rat) / 1000 \<le> (4 / 100) / 3" by simp
    then have 1: "1 / 1000 \<le> x / T" using l by (rule order_trans)
    have "((1::rat) / 2) / (15 / 100) \<le> 1000" by simp
    with h have 2: "x / T \<le> 1000" by (rule order_trans)
    from 1 2 show ?thesis ..
  qed
  have n: "\<bar>fl fa (x / T) - x / T\<bar> \<le> u * (x / T)" if "4 / 100 \<le> x" "x \<le> 1 / 2" for x
  proof -
    from q[OF that] have "1 / 1000 \<le> x / T" "x / T \<le> 1000" by simp_all
    from fl_rel[OF ok this] show ?thesis by (simp add: u_def mult.commute)
  qed
  have "\<bar>fl fa (a / T) + fl fa (b / T) + fl fa (c / T) + fl fa (d / T) - 1\<bar> \<le> (e + u) / (1 - e)"
  proof (rule normalised_sum_bound[where ?w1.0 = a and ?w2.0 = b and ?w3.0 = c and ?w4.0 = d and T = T])
    show "0 \<le> a" "0 \<le> b" "0 \<le> c" "0 \<le> d" using ra rb rc rd by simp_all
    show "0 < a + b + c + d" using Sr by (simp add: S_def)
    show "\<bar>T - (a + b + c + d)\<bar> \<le> e * (a + b + c + d)" using Terr by (simp add: S_def mult.commute)
    show "0 \<le> e" "e < 1" "0 \<le> u" using e01 u0 by simp_all
    show "\<bar>fl fa (a / T) - a / T\<bar> \<le> u * (a / T)" using n[OF ra] .
    show "\<bar>fl fa (b / T) - b / T\<bar> \<le> u * (b / T)" using n[OF rb] .
    show "\<bar>fl fa (c / T) - c / T\<bar> \<le> u * (c / T)" using n[OF rc] .
    show "\<bar>fl fa (d / T) - d / T\<bar> \<le> u * (d / T)" using n[OF rd] .
  qed
  also have "\<dots> \<le> 1 / 10 ^ 6" unfolding e_def u_def by (rule final_bound)
  finally have "\<bar>weights_sum (normalise_weights fa w T) - 1\<bar> \<le> 1 / 10 ^ 6"
    by (simp add: weights_sum_def normalise_weights_def a_def b_def c_def d_def)
  with Tpos show ?thesis ..
qed

lemma pre_weights_in_range:
  assumes ok: "float_ok fa"
  shows "weights_in_range (case purpose_weights purp of Some pw \<Rightarrow> float_weights fa pw
                   | None \<Rightarrow> (tightness_weights fa r)\<lparr>w_performance := fl fa (dict_get performance_weights lvl (2 / 10))\<rparr>)"
proof (cases "purpose_weights purp")
  case (Some pw)
  then show ?thesis using purpose_in_range[OF ok Some] by simp
next
  case None
  have t: "weights_in_range (tightness_weights fa r)" using ok by (rule tightness_in_range)
  have p: "4 / 100 \<le> fl fa (dict_get performance_weights lvl (2 / 10))
           \<and> fl fa (dict_get performance_weights lvl (2 / 10)) \<le> 1 / 2"
    using performance_literal[of lvl] fl_literal[OF ok] by blast
  from t p None show ?thesis by (simp add: weights_in_range_def)
qed

lemma dynamic_weights_sum_bound:
  assumes ok: "float_ok fa"
  shows "\<bar>weights_sum (calculate_dynamic_weights fa battr lvl purp) - 1\<bar> \<le> 1 / 10 ^ 6"
proof (cases battr)
  case BudgetAbsent
  then show ?thesis using base_sum_bound[OF ok]
    by (simp add: calculate_dynamic_weights_def dynamic_weights_body_def)
next
  case (BudgetDict d)
  then show ?thesis using base_sum_bound[OF ok]
    by (simp add: calculate_dynamic_weights_def dynamic_weights_body_def)
next
  case (BudgetModel b)
  define w2 where "w2 = (case purpose_weights purp of Some pw \<Rightarrow> float_weights fa pw
     | None \<Rightarrow> (tightness_weights fa (fl fa (budget_max b - budget_min b)))
                  \<lparr>w_performance := fl fa (dict_get performance_weights lvl (2 / 10))\<rparr>)"
  define T where "T = fsum fa [w_purpose w2, w_budget w2, w_performance w2, w_brand w2]"
  have r: "weights_in_range w2" unfolding w2_def using ok by (rule pre_weights_in_range)
  from normalised_in_range_bound[OF ok r]
  have Tpos: "0 < T" and bound: "\<bar>weights_sum (normalise_weights fa w2 T) - 1\<bar> \<le> 1 / 10 ^ 6"
    by (simp_all add: T_def)
  have "calculate_dynamic_weights fa battr lvl purp = normalise_weights fa w2 T"
    using Tpos unfolding calculate_dynamic_weights_def dynamic_weights_body_def BudgetModel Let_def
      w2_def T_def by simp
  with bound show ?thesis by simp
qed

lemma rounding_up_ok: "float_ok rounding_up"
  unfolding float_ok_def rounding_up_def by (simp add: algebra_simps)

lemma rounding_up_office:
  "weights_sum (calculate_dynamic_weights rounding_up (BudgetModel \<lparr>budget_min = 200, budget_max = 350\<rparr>)
      ''standard'' ''office'') = 1 + 1 / 2 ^ 53"
  by (simp add: calculate_dynamic_weights_def dynamic_weights_body_def rounding_up_def
      purpose_weights_def float_weights_def normalise_weights_def weights_sum_def Let_def)

section \<open>Safe-mode floors\<close>

text \<open>
  C7. In safe mode every sub-score is at least its documented floor, for every candidate
  value and every profile: the safe purpose score is at least 60, the safe budget-fit
  score at least 60 and the safe performance score at least 65. The statement covers
  the handlers as well: a non-numeric input takes the body to its error and the
  function to the handler's constant (70, 75 and 70).
\<close>

theorem safe_sub_scores_floor:
  "60 \<le> calculate_purpose_score_safe purp suitability_scores
   \<and> 60 \<le> calculate_budget_fit_safe price b
   \<and> 65 \<le> calculate_performance_score_safe required_level performance_profile"
proof (intro conjI)
  show "60 \<le> calculate_purpose_score_safe purp suitability_scores"
    by (simp add: calculate_purpose_score_safe_def purpose_score_safe_body_def Let_def
        split: pyval.splits)
  show "60 \<le> calculate_budget_fit_safe price b"
    by (simp add: calculate_budget_fit_safe_def budget_fit_safe_body_def Let_def
        le_max_iff_disj split: pyval.splits)
  show "65 \<le> calculate_performance_score_safe required_level performance_profile"
    by (simp add: calculate_performance_score_safe_def performance_score_safe_body_def Let_def
        le_max_iff_disj split: pyval.splits)
qed

section \<open>Budget fit\<close>

text \<open>
  C4. The budget-fit sub-score is claimed to be clamped to [0,100] and never to exceed
  100. The source applies \<open>min(100, ...)\<close> only on the two bonus branches; with a price
  at the centre of a budget of width 400 the tightness factor is 2 and the function
  returns 200, while the clamped formula of the specification gives 100.
\<close>

theorem budget_fit_exceeds_100:
  "calculate_budget_fit (Num 1200) \<lparr>budget_min = 1000, budget_max = 1400\<rparr> = 200
   \<and> budget_fit_spec 1200 \<lparr>budget_min = 1000, budget_max = 1400\<rparr> = 100"
  by (simp add: calculate_budget_fit_def budget_fit_spec_def Let_def)

section \<open>Dynamic weights\<close>

text \<open>
  C8, as claimed, fails for an invalid budget: with the minimum above the maximum and
  purpose gaming the calculator returns the gaming tuple, not the base weights, in
  exact arithmetic and in the arithmetic that rounds up alike.
\<close>

theorem dynamic_weights_invalid_budget_counterexample:
  "calculate_dynamic_weights exact_arith (BudgetModel \<lparr>budget_min = 1000, budget_max = 500\<rparr>)
     ''high'' ''gaming''
   = \<lparr>w_purpose = 45 / 100, w_budget = 2 / 10, w_performance = 3 / 10, w_brand = 5 / 100\<rparr>
   \<and> calculate_dynamic_weights exact_arith (BudgetModel \<lparr>budget_min = 1000, budget_max = 500\<rparr>)
     ''high'' ''gaming''
   \<noteq> float_weights exact_arith base_weights
   \<and> calculate_dynamic_weights rounding_up (BudgetModel \<lparr>budget_min = 1000, budget_max = 500\<rparr>)
     ''high'' ''gaming''
   \<noteq> float_weights rounding_up base_weights"
  by (simp add: calculate_dynamic_weights_def dynamic_weights_body_def exact_arith_def rounding_up_def
      purpose_weights_def base_weights_def float_weights_def normalise_weights_def Let_def)

text \<open>
  C8, amended. In floating-point arithmetic that rounds as IEEE doubles do, the four
  weights returned for any profile sum to 1 within 1e-6. For a profile without a
  budget the calculator returns the base weights 0.4, 0.3, 0.2, 0.1, and so it does on
  any internal error, which the handler catches; a budget given as a non-empty
  dictionary is such an error.
\<close>

theorem dynamic_weights_sum_and_error_paths:
  assumes "float_ok fa"
  shows "\<bar>weights_sum (calculate_dynamic_weights fa battr required_level purp) - 1\<bar> \<le> 1 / 10 ^ 6
       \<and> calculate_dynamic_weights fa BudgetAbsent required_level purp = float_weights fa base_weights
       \<and> (\<forall>err. dynamic_weights_body fa battr required_level purp = Inl err
              \<longrightarrow> calculate_dynamic_weights fa battr required_level purp = float_weights fa base_weights)
       \<and> dynamic_weights_body fa (BudgetDict (kv # kvs)) required_level purp = Inl AttributeError"
proof (intro conjI)
  show "\<bar>weights_sum (calculate_dynamic_weights fa battr required_level purp) - 1\<bar> \<le> 1 / 10 ^ 6"
    using assms by (rule dynamic_weights_sum_bound)
  show "calculate_dynamic_weights fa BudgetAbsent required_level purp = float_weights fa base_weights"
    by (simp add: calculate_dynamic_weights_def dynamic_weights_body_def)
  show "\<forall>err. dynamic_weights_body fa battr required_level purp = Inl err
              \<longrightarrow> calculate_dynamic_weights fa battr required_level purp = float_weights fa base_weights"
    by (simp add: calculate_dynamic_weights_def)
  show "dynamic_weights_body fa (BudgetDict (kv # kvs)) required_level purp = Inl AttributeError"
    by (simp add: dynamic_weights_body_def)
qed

text \<open>The hypothesis holds for the arithmetic that rounds up; there the weights of an
  office profile sum to more than 1, and a dictionary budget takes the handler.\<close>

theorem dynamic_weights_sum_and_error_paths_witness:
  "float_ok rounding_up
   \<and> weights_sum (calculate_dynamic_weights rounding_up
        (BudgetModel \<lparr>budget_min = 200, budget_max = 350\<rparr>) ''standard'' ''office'') = 1 + 1 / 2 ^ 53
   \<and> \<bar>weights_sum (calculate_dynamic_weights rounding_up
        (BudgetModel \<lparr>budget_min = 200, budget_max = 350\<rparr>) ''standard'' ''office'') - 1\<bar> \<le> 1 / 10 ^ 6
   \<and> dynamic_weights_body rounding_up (BudgetDict [(''min'', Num 200), (''max'', Num 350)])
        ''standard'' ''office'' = Inl AttributeError
   \<and> calculate_dynamic_weights rounding_up (BudgetDict [(''min'', Num 200), (''max'', Num 350)])
        ''standard'' ''office'' = float_weights rounding_up base_weights"
proof -
  note t = dynamic_weights_sum_and_error_paths[OF rounding_up_ok]
  have 1: "\<bar>weights_sum (calculate_dynamic_weights rounding_up
        (BudgetModel \<lparr>budget_min = 200, budget_max = 350\<rparr>) ''standard'' ''office'') - 1\<bar> \<le> 1 / 10 ^ 6"
    using t[of "BudgetModel \<lparr>budget_min = 200, budget_max = 350\<rparr>" "''standard''" "''office''"]
    by blast
  have 2: "dynamic_weights_body rounding_up (BudgetDict [(''min'', Num 200), (''max'', Num 350)])
        ''standard'' ''office'' = Inl AttributeError"
    using t[of "BudgetDict [(''min'', Num 200), (''max'', Num 350)]" "''standard''" "''office''"
            "(''min'', Num 200)" "[(''max'', Num 350)]"]
    by blast
  have 3: "calculate_dynamic_weights rounding_up (BudgetDict [(''min'', Num 200), (''max'', Num 350)])
        ''standard'' ''office'' = float_weights rounding_up base_weights"
    using t[of "BudgetDict [(''min'', Num 200), (''max'', Num 350)]" "''standard''" "''office''"] 2
    by blast
  from rounding_up_ok rounding_up_office 1 2 3 show ?thesis by blast
qed

section \<open>Facts about the engine\<close>

lemma then_res_Inr: "then_res m f = Inr y \<Longrightarrow> \<exists>v. m = Inr v \<and> f v = Inr y"
  by (cases m) (auto simp: then_res_def)

lemma score_configuration_Some:
  assumes "score_configuration e c p safe_mode = Some r" and "budget p = Some b"
  shows "check_budget_constraints (total_price r) b \<and> fallback_type r = cfg_fallback_type c
         \<and> cfg_total_price c = Some (Num (total_price r)) \<and> configuration_id r = cfg_id c"
proof -
  from assms(1) have body: "score_configuration_body e c p safe_mode = Inr (Some r)"
    by (auto simp: score_configuration_def split: sum.splits)
  show ?thesis
    using body assms(2)
    unfolding score_configuration_body_def
    by (auto split: option.splits pyval.splits pydict.splits if_splits sum.splits prod.splits
             dest!: then_res_Inr)
qed

lemma rank_and_select_eq:
  "rank_and_select e p n safe_mode configs = Inr recs \<Longrightarrow>
   recs = take n (sort_key (\<lambda>x. - confidence_score x)
            (List.map_filter (\<lambda>c. score_configuration e c p safe_mode) configs))"
  by (auto simp: rank_and_select_def Let_def split: if_splits)

lemma rank_and_select_member:
  assumes "rank_and_select e p n safe_mode configs = Inr recs" and "r \<in> set recs"
  shows "\<exists>c \<in> set configs. score_configuration e c p safe_mode = Some r"
proof -
  from assms have "r \<in> set (List.map_filter (\<lambda>c. score_configuration e c p safe_mode) configs)"
    by (auto dest!: rank_and_select_eq dest: in_set_takeD)
  then show ?thesis
    by (auto simp: List.map_filter_def)
qed

lemma generate_computed:
  assumes "fst (generate_recommendations e store p n safe_mode) = Inr (recs, False)"
      and "budget p = Some b"
  shows "compute_recommendations e p b n safe_mode = Inr recs"
  using assms
  by (auto simp: generate_recommendations_def Let_def
           split: option.splits list.splits sum.splits)


lemma compute_member:
  assumes "compute_recommendations e p b n safe_mode = Inr recs" and "r \<in> set recs"
  shows "\<exists>c. score_configuration e c p safe_mode = Some r"
  using assms rank_and_select_member
  by (fastforce simp: compute_recommendations_def Let_def split: sum.splits if_splits)

lemma computed_within_budget:
  assumes "fst (generate_recommendations e store p n safe_mode) = Inr (recs, False)"
      and "budget p = Some b" and "r \<in> set recs"
  shows "budget_min b \<le> total_price r \<and> total_price r \<le> budget_max b"
proof -
  from assms(1,2) have "compute_recommendations e p b n safe_mode = Inr recs"
    by (rule generate_computed)
  with assms(3) obtain c where "score_configuration e c p safe_mode = Some r"
    using compute_member by blast
  with assms(2) have "check_budget_constraints (total_price r) b"
    using score_configuration_Some by blast
  then show ?thesis by (simp add: check_budget_constraints_def)
qed

lemma generate_miss:
  assumes "budget p = Some b"
      and "cache_get store (recommendations_cache_key (float_repr e) p n safe_mode) = None
           \<or> cache_get store (recommendations_cache_key (float_repr e) p n safe_mode) = Some []"
  shows "fst (generate_recommendations e store p n safe_mode) =
           (case compute_recommendations e p b n safe_mode of
              Inl err \<Rightarrow> Inl err | Inr recs \<Rightarrow> Inr (recs, False))"
  using assms
  by (auto simp: generate_recommendations_def Let_def split: sum.splits)

lemma map_filter_empty_iff: "List.map_filter f xs = [] \<longleftrightarrow> (\<forall>x \<in> set xs. f x = None)"
  by (induction xs) (auto simp: List.map_filter_def)

lemma sort_key_empty_iff: "sort_key f xs = [] \<longleftrightarrow> xs = []"
proof -
  have "length (sort_key f xs) = length xs" by (rule length_sort)
  then show ?thesis by (metis length_0_conv)
qed

lemma take_empty_iff: "0 < n \<Longrightarrow> take n xs = [] \<longleftrightarrow> xs = []"
  by (cases xs; cases n) auto

lemma rank_and_select_cases:
  assumes "0 < n"
  shows "rank_and_select e p n safe_mode configs =
           (if \<forall>c \<in> set configs. score_configuration e c p safe_mode = None
            then Inl NoConfigurationsMeetRequirements
            else Inr (take n (sort_key (\<lambda>x. - confidence_score x)
                    (List.map_filter (\<lambda>c. score_configuration e c p safe_mode) configs))))"
proof -
  define scored where "scored = List.map_filter (\<lambda>c. score_configuration e c p safe_mode) configs"
  define sorted_configs where "sorted_configs = sort_key (\<lambda>x. - confidence_score x) scored"
  have e1: "sorted_configs = [] \<longleftrightarrow> (\<forall>c \<in> set configs. score_configuration e c p safe_mode = None)"
    unfolding sorted_configs_def scored_def sort_key_empty_iff map_filter_empty_iff ..
  have e2: "take n sorted_configs = [] \<longleftrightarrow> sorted_configs = []"
    using assms by (rule take_empty_iff)
  have "rank_and_select e p n safe_mode configs =
          (if take n sorted_configs = [] \<and> sorted_configs = [] then Inl NoConfigurationsMeetRequirements
           else Inr (take n sorted_configs))"
    unfolding rank_and_select_def Let_def sorted_configs_def scored_def ..
  also have "\<dots> = (if \<forall>c \<in> set configs. score_configuration e c p safe_mode = None
            then Inl NoConfigurationsMeetRequirements else Inr (take n sorted_configs))"
    using e1 e2 by simp
  finally show ?thesis unfolding sorted_configs_def scored_def .
qed

lemma list_aggregate_no_price:
  assumes "\<forall>c \<in> set catalog. \<not> price_in (price_gte q) (price_lte q) c"
  shows "list_aggregate catalog q = Inr []"
proof -
  have "filter (matches q) catalog = []"
    using assms by (auto simp: filter_empty_conv matches_def)
  then show ?thesis by (simp add: list_aggregate_def)
qed

lemma price_in_mono:
  assumes "\<forall>x. cfg_total_price c = Some (Num x) \<longrightarrow> 400 \<le> x" and "hi < 400"
  shows "\<not> price_in lo hi c"
  using assms by (auto simp: price_in_def split: option.splits pyval.splits)

lemma expanded_range:
  "price_gte (fallback_pipeline_of p \<lparr>budget_min = 200, budget_max = 350\<rparr> n False True False) = 178
   \<and> price_lte (fallback_pipeline_of p \<lparr>budget_min = 200, budget_max = 350\<rparr> n False True False) = 372"
  by (simp add: fallback_pipeline_of_def py_int_def Let_def floor_eq_iff)

lemma fallback_price_lte:
  "price_lte (fallback_pipeline_of p \<lparr>budget_min = 200, budget_max = 350\<rparr> n r x nc) \<le> 372"
  by (simp add: fallback_pipeline_of_def py_int_def Let_def floor_eq_iff)

lemma stage_query_none:
  assumes b: "budget p = Some \<lparr>budget_min = 200, budget_max = 350\<rparr>"
      and cat: "\<forall>c \<in> set catalog. \<forall>x. cfg_total_price c = Some (Num x) \<longrightarrow> 400 \<le> x"
  shows "stage_query (list_env catalog) p n s = []"
proof -
  have "try_fallback_query (list_env catalog) p n None r x nc = []" for r x nc
  proof -
    let ?q = "fallback_pipeline_of p \<lparr>budget_min = 200, budget_max = 350\<rparr> n r x nc"
    have "price_lte ?q < 400" using fallback_price_lte[of p n r x nc] by simp
    then have "\<forall>c \<in> set catalog. \<not> price_in (price_gte ?q) (price_lte ?q) c"
      using cat price_in_mono by blast
    then have "list_aggregate catalog ?q = Inr []" by (rule list_aggregate_no_price)
    then show ?thesis by (simp add: try_fallback_query_def b list_env_def)
  qed
  then show ?thesis by (cases s) (simp_all add: stage_query_def)
qed

lemma strict_query_none:
  assumes cat: "\<forall>c \<in> set catalog. \<forall>x. cfg_total_price c = Some (Num x) \<longrightarrow> 400 \<le> x"
  shows "strict_query (list_env catalog) p \<lparr>budget_min = 200, budget_max = 350\<rparr> n safe_mode = Inr []"
proof -
  have "list_aggregate catalog q = Inr []" if "price_lte q = 350" for q
  proof -
    have "\<forall>c \<in> set catalog. \<not> price_in (price_gte q) (price_lte q) c"
    proof
      fix c assume "c \<in> set catalog"
      with cat have "\<forall>x. cfg_total_price c = Some (Num x) \<longrightarrow> 400 \<le> x" by blast
      moreover have "price_lte q < 400" using that by simp
      ultimately show "\<not> price_in (price_gte q) (price_lte q) c" by (rule price_in_mono)
    qed
    then show ?thesis by (rule list_aggregate_no_price)
  qed
  then show ?thesis
    by (simp add: strict_query_def intelligent_query_def Let_def list_env_def)
qed


lemma generate_empty_store:
  assumes "budget p = Some b"
  shows "fst (generate_recommendations e Map.empty p n safe_mode) =
           (case compute_recommendations e p b n safe_mode of
              Inl err \<Rightarrow> Inl err | Inr recs \<Rightarrow> Inr (recs, False))"
  using assms by (rule generate_miss) (simp add: cache_get_def)

lemma budget_profile_gaming: "budget profile_gaming = Some \<lparr>budget_min = 200, budget_max = 350\<rparr>"
  by (simp add: profile_gaming_def)

lemma budget_profile_nvidia: "budget profile_nvidia = Some \<lparr>budget_min = 200, budget_max = 350\<rparr>"
  by (simp add: profile_nvidia_def profile_gaming_def)

lemma compute_low_score:
  "compute_recommendations (list_env [config_low_score]) profile_gaming
     \<lparr>budget_min = 200, budget_max = 350\<rparr> 3 False
   = Inr [scored_low_score]"
  unfolding scored_low_score_def by code_simp

lemma compute_in_budget:
  "compute_recommendations (list_env [config_in_budget]) profile_gaming
     \<lparr>budget_min = 200, budget_max = 350\<rparr> 3 False = Inr [scored_in_budget]"
  unfolding scored_in_budget_def by code_simp

lemma compute_over_budget:
  "compute_recommendations (list_env [config_over_budget]) profile_gaming
     \<lparr>budget_min = 200, budget_max = 350\<rparr> 3 False = Inl NoConfigurationsMeetRequirements"
  by code_simp

lemma stage_over_budget:
  "stage_query (list_env [config_over_budget]) profile_gaming 3 ExpandBudget
     = [config_over_budget\<lparr>cfg_fallback_type := Some ''expanded_budget''\<rparr>]"
  by code_simp

lemma compute_low_score_nvidia:
  "compute_recommendations (list_env [config_low_score]) profile_nvidia
     \<lparr>budget_min = 200, budget_max = 350\<rparr> 3 False
   = Inr [\<lparr>configuration_id = ''c2'', name = ''PC'', total_price = 300,
         confidence_score = 621 / 10,
         match_reasons =
           [(''purpose_alignment'', 9 / 20), (''budget_fit'', 1 / 5),
            (''performance_match'', 3 / 10), (''fallback_note'', 0)],
         trade_offs = [(''performance'', ''negative'')], components = [],
         fallback_type = Some ''preferred_brands''\<rparr>]"
  by code_simp

lemma trace_low_score_nvidia:
  "snd (progressive_fallback (list_env [config_low_score]) profile_nvidia 3 [])
   = [(RelaxPreferredBrands, []), (RelaxPerformance, []), (ExpandBudget, []),
      (RemoveAllConstraints, [config_low_score\<lparr>cfg_fallback_type := Some ''preferred_brands''\<rparr>])]"
  by code_simp

text \<open>The test vector of RFC 1321 for the message \<open>abc\<close>.\<close>

lemma md5_abc: "md5_hexdigest ''abc'' = ''900150983cd24fb0d6963f7d28e17f72''"
  by code_simp

lemma sort_mset_eq: "mset xs = mset ys \<Longrightarrow> sort xs = sort (ys :: string list)"
  by (metis mset_sort properties_for_sort sorted_sort)

lemma key_nvidia:
  "recommendations_cache_key repr_whole_float profile_nvidia 3 False = ''95045c3c799132ff4898b5385a236002''"
  by code_simp

lemma key_nvidia_twice:
  "recommendations_cache_key repr_whole_float profile_nvidia_twice 3 False = ''8b1b8ff3de864a354ce7d031288a5a06''"
  by code_simp

lemma progressive_fallback_fst:
  "fst (progressive_fallback e p n configs0) =
     (if configs0 \<noteq> [] then configs0
      else if list_or_empty (preferred_brands p) \<noteq> []
              \<and> try_fallback_query e p n None False False False \<noteq> []
           then try_fallback_query e p n None False False False
      else if try_fallback_query e p n None True False False \<noteq> []
           then try_fallback_query e p n None True False False
      else if try_fallback_query e p n None False True False \<noteq> []
           then try_fallback_query e p n None False True False
      else try_fallback_query e p n None False False True)"
  by (simp add: progressive_fallback_def attempt_def stage_query_def Let_def)

lemma strict_low_score:
  "strict_query (list_env [config_low_score]) profile_gaming
     \<lparr>budget_min = 200, budget_max = 350\<rparr> 3 False = Inr []"
  by code_simp

lemma stages_low_score:
  "try_fallback_query (list_env [config_low_score]) profile_gaming 3 None True False False = []
   \<and> try_fallback_query (list_env [config_low_score]) profile_gaming 3 None False True False = []
   \<and> try_fallback_query (list_env [config_low_score]) profile_gaming 3 None False False True
       = [config_low_score\<lparr>cfg_fallback_type := Some ''no_constraints''\<rparr>]"
  by code_simp

lemma score_low_score:
  "score_configuration (list_env [config_low_score])
     (config_low_score\<lparr>cfg_fallback_type := Some ''no_constraints''\<rparr>) profile_gaming False
   = Some scored_low_score"
  unfolding scored_low_score_def by code_simp

lemma strict_450:
  "strict_query (list_env [config_450]) profile_gaming
     \<lparr>budget_min = 200, budget_max = 350\<rparr> 3 False = Inr []"
  by code_simp

lemma stages_450:
  "try_fallback_query (list_env [config_450]) profile_gaming 3 None True False False = []
   \<and> try_fallback_query (list_env [config_450]) profile_gaming 3 None False True False = []
   \<and> try_fallback_query (list_env [config_450]) profile_gaming 3 None False False True = []"
  by code_simp

lemma strict_over_budget:
  "strict_query (list_env [config_over_budget]) profile_gaming
     \<lparr>budget_min = 200, budget_max = 350\<rparr> 3 False = Inr []"
  by code_simp

lemma stages_over_budget:
  "try_fallback_query (list_env [config_over_budget]) profile_gaming 3 None True False False = []
   \<and> try_fallback_query (list_env [config_over_budget]) profile_gaming 3 None False True False
       = [config_over_budget\<lparr>cfg_fallback_type := Some ''expanded_budget''\<rparr>]"
  by code_simp

lemma score_over_budget:
  "score_configuration (list_env [config_over_budget])
     (config_over_budget\<lparr>cfg_fallback_type := Some ''expanded_budget''\<rparr>) profile_gaming False = None"
  by code_simp

lemma no_brands_profile_gaming: "list_or_empty (preferred_brands profile_gaming) = []"
  by (simp add: profile_gaming_def list_or_empty_def)

lemma empty_store_miss:
  "cache_get Map.empty k = None \<or> cache_get Map.empty k = Some []"
  by (simp add: cache_get_def)

section \<open>Outcomes of the operation\<close>

text \<open>
  C1, as claimed, fails: a fallback stage can return candidates and the call still
  fail. For the gaming profile with budget [200, 350] and a catalog holding one
  configuration priced 360, the budget-expansion stage returns that configuration, the
  scorer drops it (its price is outside the budget of the profile), and the call ends
  in the second error, raised after scoring.
\<close>

theorem retrieved_then_dropped_counterexample:
  "stage_query (list_env [config_over_budget]) profile_gaming 3 ExpandBudget
     = [config_over_budget\<lparr>cfg_fallback_type := Some ''expanded_budget''\<rparr>]
   \<and> fst (generate_recommendations (list_env [config_over_budget]) Map.empty profile_gaming 3 False)
       = Inl NoConfigurationsMeetRequirements"
  using stage_over_budget generate_empty_store[OF budget_profile_gaming, of "list_env [config_over_budget]" 3 False]
  by (simp add: compute_over_budget)

text \<open>
  C1, amended. On a cache miss, with the catalog answering the strict query and
  \<open>max_recommendations\<close> at least 1: the call fails with "no configurations available"
  exactly when the strict query returned nothing and so did the query of each fallback
  stage (relax performance, expand budget, remove all constraints, and relax preferred
  brands when the profile has preferred brands); it fails with "no configurations meet
  the minimum requirements" exactly when configurations were retrieved (by the strict
  query, else by the first stage that returned any) and the scorer dropped every one of
  them; it returns a non-empty list exactly when the scorer kept at least one of them,
  and the list returned is the kept ones ranked by confidence, cut to
  \<open>max_recommendations\<close>.
\<close>

theorem generate_outcomes:
  assumes b: "budget p = Some b"
      and miss: "cache_get store (recommendations_cache_key (float_repr e) p n safe_mode) = None
           \<or> cache_get store (recommendations_cache_key (float_repr e) p n safe_mode) = Some []"
      and q: "strict_query e p b n safe_mode = Inr configs0"
      and n: "0 < n"
      and r: "retrieved =
                (if configs0 \<noteq> [] then configs0
                 else if list_or_empty (preferred_brands p) \<noteq> []
                         \<and> try_fallback_query e p n None False False False \<noteq> []
                      then try_fallback_query e p n None False False False
                 else if try_fallback_query e p n None True False False \<noteq> []
                      then try_fallback_query e p n None True False False
                 else if try_fallback_query e p n None False True False \<noteq> []
                      then try_fallback_query e p n None False True False
                 else try_fallback_query e p n None False False True)"
  shows "(fst (generate_recommendations e store p n safe_mode) = Inl NoConfigurationsAvailable
            \<longleftrightarrow> configs0 = []
                \<and> (list_or_empty (preferred_brands p) = []
                     \<or> try_fallback_query e p n None False False False = [])
                \<and> try_fallback_query e p n None True False False = []
                \<and> try_fallback_query e p n None False True False = []
                \<and> try_fallback_query e p n None False False True = [])
       \<and> (fst (generate_recommendations e store p n safe_mode) = Inl NoConfigurationsMeetRequirements
            \<longleftrightarrow> retrieved \<noteq> [] \<and> (\<forall>c \<in> set retrieved. score_configuration e c p safe_mode = None))
       \<and> ((\<exists>recs. fst (generate_recommendations e store p n safe_mode) = Inr (recs, False) \<and> recs \<noteq> [])
            \<longleftrightarrow> (\<exists>c \<in> set retrieved. score_configuration e c p safe_mode \<noteq> None))
       \<and> (\<forall>recs. fst (generate_recommendations e store p n safe_mode) = Inr (recs, False)
            \<longrightarrow> recs = take n (sort_key (\<lambda>x. - confidence_score x)
                          (List.map_filter (\<lambda>c. score_configuration e c p safe_mode) retrieved)))"
proof -
  define ranked where "ranked = take n (sort_key (\<lambda>x. - confidence_score x)
                    (List.map_filter (\<lambda>c. score_configuration e c p safe_mode) retrieved))"
  have fb: "fst (progressive_fallback e p n configs0) = retrieved"
    unfolding r by (rule progressive_fallback_fst)
  have gen: "fst (generate_recommendations e store p n safe_mode) =
           (case compute_recommendations e p b n safe_mode of
              Inl err \<Rightarrow> Inl err | Inr recs \<Rightarrow> Inr (recs, False))"
    using b miss by (rule generate_miss)
  have comp: "compute_recommendations e p b n safe_mode =
          (if retrieved = [] then Inl NoConfigurationsAvailable
           else if \<forall>c \<in> set retrieved. score_configuration e c p safe_mode = None
                then Inl NoConfigurationsMeetRequirements
                else Inr ranked)"
  proof -
    have "compute_recommendations e p b n safe_mode =
            (if fst (progressive_fallback e p n configs0) = [] then Inl NoConfigurationsAvailable
             else rank_and_select e p n safe_mode (fst (progressive_fallback e p n configs0)))"
      by (simp add: compute_recommendations_def q Let_def)
    also have "\<dots> = (if retrieved = [] then Inl NoConfigurationsAvailable
             else rank_and_select e p n safe_mode retrieved)"
      by (simp only: fb)
    finally show ?thesis
      by (simp add: rank_and_select_cases[OF n] ranked_def)
  qed
  have ranked_ne: "ranked \<noteq> []"
    if "\<not> (\<forall>c \<in> set retrieved. score_configuration e c p safe_mode = None)"
  proof -
    from that have "List.map_filter (\<lambda>c. score_configuration e c p safe_mode) retrieved \<noteq> []"
      by (simp add: map_filter_empty_iff)
    then show ?thesis
      unfolding ranked_def using n by (simp add: take_empty_iff sort_key_empty_iff)
  qed
  have empty: "retrieved = [] \<longleftrightarrow>
       configs0 = []
       \<and> (list_or_empty (preferred_brands p) = [] \<or> try_fallback_query e p n None False False False = [])
       \<and> try_fallback_query e p n None True False False = []
       \<and> try_fallback_query e p n None False True False = []
       \<and> try_fallback_query e p n None False False True = []"
    unfolding r by auto
  have res: "fst (generate_recommendations e store p n safe_mode) =
          (if retrieved = [] then Inl NoConfigurationsAvailable
           else if \<forall>c \<in> set retrieved. score_configuration e c p safe_mode = None
                then Inl NoConfigurationsMeetRequirements
                else Inr (ranked, False))"
    unfolding gen comp by simp
  have 1: "fst (generate_recommendations e store p n safe_mode) = Inl NoConfigurationsAvailable
            \<longleftrightarrow> retrieved = []"
    unfolding res by simp
  have 2: "fst (generate_recommendations e store p n safe_mode) = Inl NoConfigurationsMeetRequirements
            \<longleftrightarrow> retrieved \<noteq> [] \<and> (\<forall>c \<in> set retrieved. score_configuration e c p safe_mode = None)"
    unfolding res by simp
  have 3: "(\<exists>recs. fst (generate_recommendations e store p n safe_mode) = Inr (recs, False) \<and> recs \<noteq> [])
            \<longleftrightarrow> (\<exists>c \<in> set retrieved. score_configuration e c p safe_mode \<noteq> None)"
    unfolding res using ranked_ne by auto
  have 4: "\<forall>recs. fst (generate_recommendations e store p n safe_mode) = Inr (recs, False)
            \<longrightarrow> recs = ranked"
    unfolding res by simp
  show ?thesis
    using 1 2 3 4 empty unfolding ranked_def by blast
qed

text \<open>
  The hypotheses hold in three runs of the gaming profile: the last stage finds the
  one configuration of the catalog and it is returned; no stage finds the
  configuration priced 450 and the call fails for lack of configurations; the
  budget-expansion stage finds the configuration priced 360, the scorer drops it, and
  the call fails after scoring.
\<close>

theorem generate_outcomes_witness:
  "strict_query (list_env [config_low_score]) profile_gaming
     \<lparr>budget_min = 200, budget_max = 350\<rparr> 3 False = Inr []
   \<and> try_fallback_query (list_env [config_low_score]) profile_gaming 3 None False False True
       = [config_low_score\<lparr>cfg_fallback_type := Some ''no_constraints''\<rparr>]
   \<and> fst (generate_recommendations (list_env [config_low_score]) Map.empty profile_gaming 3 False)
       = Inr ([scored_low_score], False)
   \<and> try_fallback_query (list_env [config_450]) profile_gaming 3 None False False True = []
   \<and> fst (generate_recommendations (list_env [config_450]) Map.empty profile_gaming 3 False)
       = Inl NoConfigurationsAvailable
   \<and> try_fallback_query (list_env [config_over_budget]) profile_gaming 3 None False True False
       = [config_over_budget\<lparr>cfg_fallback_type := Some ''expanded_budget''\<rparr>]
   \<and> fst (generate_recommendations (list_env [config_over_budget]) Map.empty profile_gaming 3 False)
       = Inl NoConfigurationsMeetRequirements"
proof -
  have n: "(0::nat) < 3" by simp
  have r1: "[config_low_score\<lparr>cfg_fallback_type := Some ''no_constraints''\<rparr>] =
      (if ([]::config list) \<noteq> [] then []
       else if list_or_empty (preferred_brands profile_gaming) \<noteq> []
               \<and> try_fallback_query (list_env [config_low_score]) profile_gaming 3 None False False False \<noteq> []
            then try_fallback_query (list_env [config_low_score]) profile_gaming 3 None False False False
       else if try_fallback_query (list_env [config_low_score]) profile_gaming 3 None True False False \<noteq> []
            then try_fallback_query (list_env [config_low_score]) profile_gaming 3 None True False False
       else if try_fallback_query (list_env [config_low_score]) profile_gaming 3 None False True False \<noteq> []
            then try_fallback_query (list_env [config_low_score]) profile_gaming 3 None False True False
       else try_fallback_query (list_env [config_low_score]) profile_gaming 3 None False False True)"
    by (simp add: no_brands_profile_gaming stages_low_score)
  note t1 = generate_outcomes[OF budget_profile_gaming empty_store_miss strict_low_score n r1]
  have "\<exists>recs. fst (generate_recommendations (list_env [config_low_score]) Map.empty profile_gaming 3 False)
           = Inr (recs, False) \<and> recs \<noteq> []"
    using t1 by (simp add: score_low_score)
  then obtain recs where
    g1: "fst (generate_recommendations (list_env [config_low_score]) Map.empty profile_gaming 3 False)
           = Inr (recs, False)" by blast
  with t1 have "recs = take 3 (sort_key (\<lambda>x. - confidence_score x)
       (List.map_filter (\<lambda>c. score_configuration (list_env [config_low_score]) c profile_gaming False)
          [config_low_score\<lparr>cfg_fallback_type := Some ''no_constraints''\<rparr>]))"
    by blast
  then have "recs = [scored_low_score]"
    by (simp add: List.map_filter_def score_low_score)
  with g1 have a: "fst (generate_recommendations (list_env [config_low_score]) Map.empty profile_gaming 3 False)
       = Inr ([scored_low_score], False)" by simp
  have r2: "([]::config list) =
      (if ([]::config list) \<noteq> [] then []
       else if list_or_empty (preferred_brands profile_gaming) \<noteq> []
               \<and> try_fallback_query (list_env [config_450]) profile_gaming 3 None False False False \<noteq> []
            then try_fallback_query (list_env [config_450]) profile_gaming 3 None False False False
       else if try_fallback_query (list_env [config_450]) profile_gaming 3 None True False False \<noteq> []
            then try_fallback_query (list_env [config_450]) profile_gaming 3 None True False False
       else if try_fallback_query (list_env [config_450]) profile_gaming 3 None False True False \<noteq> []
            then try_fallback_query (list_env [config_450]) profile_gaming 3 None False True False
       else try_fallback_query (list_env [config_450]) profile_gaming 3 None False False True)"
    by (simp add: no_brands_profile_gaming stages_450)
  note t2 = generate_outcomes[OF budget_profile_gaming empty_store_miss strict_450 n r2]
  have b: "fst (generate_recommendations (list_env [config_450]) Map.empty profile_gaming 3 False)
       = Inl NoConfigurationsAvailable"
    using t2 by (simp add: no_brands_profile_gaming stages_450)
  have r3: "[config_over_budget\<lparr>cfg_fallback_type := Some ''expanded_budget''\<rparr>] =
      (if ([]::config list) \<noteq> [] then []
       else if list_or_empty (preferred_brands profile_gaming) \<noteq> []
               \<and> try_fallback_query (list_env [config_over_budget]) profile_gaming 3 None False False False \<noteq> []
            then try_fallback_query (list_env [config_over_budget]) profile_gaming 3 None False False False
       else if try_fallback_query (list_env [config_over_budget]) profile_gaming 3 None True False False \<noteq> []
            then try_fallback_query (list_env [config_over_budget]) profile_gaming 3 None True False False
       else if try_fallback_query (list_env [config_over_budget]) profile_gaming 3 None False True False \<noteq> []
            then try_fallback_query (list_env [config_over_budget]) profile_gaming 3 None False True False
       else try_fallback_query (list_env [config_over_budget]) profile_gaming 3 None False False True)"
    by (simp add: no_brands_profile_gaming stages_over_budget)
  note t3 = generate_outcomes[OF budget_profile_gaming empty_store_miss strict_over_budget n r3]
  have c: "fst (generate_recommendations (list_env [config_over_budget]) Map.empty profile_gaming 3 False)
       = Inl NoConfigurationsMeetRequirements"
    using t3 by (simp add: score_over_budget)
  from a b c strict_low_score stages_low_score stages_450 stages_over_budget show ?thesis by blast
qed

section \<open>Budget bounds of returned candidates\<close>

text \<open>
  C2. Every candidate of a computed result (cache-hit flag false) that is not marked
  with a fallback type has its total price within the budget bounds of the profile.
\<close>

theorem non_fallback_within_budget:
  assumes "fst (generate_recommendations e store p n safe_mode) = Inr (recs, False)"
      and "budget p = Some b" and "r \<in> set recs" and "fallback_type r = None"
  shows "budget_min b \<le> total_price r \<and> total_price r \<le> budget_max b"
  using assms(1-3) by (rule computed_within_budget)

text \<open>The hypotheses hold for the configuration the primary query finds.\<close>

theorem non_fallback_within_budget_witness:
  "fst (generate_recommendations (list_env [config_in_budget]) Map.empty profile_gaming 3 False)
     = Inr ([scored_in_budget], False)
   \<and> budget profile_gaming = Some \<lparr>budget_min = 200, budget_max = 350\<rparr>
   \<and> scored_in_budget \<in> set [scored_in_budget]
   \<and> fallback_type scored_in_budget = None
   \<and> budget_min \<lparr>budget_min = 200, budget_max = 350\<rparr> \<le> total_price scored_in_budget
   \<and> total_price scored_in_budget \<le> budget_max \<lparr>budget_min = 200, budget_max = 350\<rparr>"
proof -
  have g: "fst (generate_recommendations (list_env [config_in_budget]) Map.empty profile_gaming 3 False)
     = Inr ([scored_in_budget], False)"
    using generate_empty_store[OF budget_profile_gaming, of "list_env [config_in_budget]" 3 False]
    by (simp add: compute_in_budget)
  have m: "scored_in_budget \<in> set [scored_in_budget]" by simp
  have f: "fallback_type scored_in_budget = None" by (simp add: scored_in_budget_def)
  from non_fallback_within_budget[OF g budget_profile_gaming m f] g budget_profile_gaming f
  show ?thesis by simp
qed

text \<open>
  C10. Every candidate of a computed result, whatever its fallback type, has its total
  price within the original budget bounds of the profile: the scorer applies the
  budget check to every configuration and returns nothing for one outside the bounds.
\<close>

theorem returned_within_budget:
  assumes "fst (generate_recommendations e store p n safe_mode) = Inr (recs, False)"
      and "budget p = Some b" and "r \<in> set recs"
  shows "budget_min b \<le> total_price r \<and> total_price r \<le> budget_max b"
  using assms by (rule computed_within_budget)

text \<open>The hypotheses hold for a candidate tagged by the last fallback stage.\<close>

theorem returned_within_budget_witness:
  "fst (generate_recommendations (list_env [config_low_score]) Map.empty profile_gaming 3 False)
     = Inr ([scored_low_score], False)
   \<and> budget profile_gaming = Some \<lparr>budget_min = 200, budget_max = 350\<rparr>
   \<and> scored_low_score \<in> set [scored_low_score]
   \<and> fallback_type scored_low_score = Some ''no_constraints''
   \<and> budget_min \<lparr>budget_min = 200, budget_max = 350\<rparr> \<le> total_price scored_low_score
   \<and> total_price scored_low_score \<le> budget_max \<lparr>budget_min = 200, budget_max = 350\<rparr>"
proof -
  have g: "fst (generate_recommendations (list_env [config_low_score]) Map.empty profile_gaming 3 False)
     = Inr ([scored_low_score], False)"
    using generate_empty_store[OF budget_profile_gaming, of "list_env [config_low_score]" 3 False]
    by (simp add: compute_low_score scored_low_score_def)
  have m: "scored_low_score \<in> set [scored_low_score]" by simp
  from returned_within_budget[OF g budget_profile_gaming m] g budget_profile_gaming
  show ?thesis by (simp add: scored_low_score_def)
qed

section \<open>The budget-expansion scenario\<close>

text \<open>
  C3, as claimed, fails: there is no catalog and no profile with budget [200, 350] for
  which a computed result holds a candidate that carries a fallback type and whose
  price lies outside [200, 350].
\<close>

theorem expanded_budget_result_counterexample:
  "\<not> (\<exists>e store p n safe_mode recs r.
         budget p = Some \<lparr>budget_min = 200, budget_max = 350\<rparr>
         \<and> fst (generate_recommendations e store p n safe_mode) = Inr (recs, False)
         \<and> r \<in> set recs \<and> fallback_type r \<noteq> None
         \<and> (total_price r < 200 \<or> 350 < total_price r))"
proof
  assume "\<exists>e store p n safe_mode recs r.
         budget p = Some \<lparr>budget_min = 200, budget_max = 350\<rparr>
         \<and> fst (generate_recommendations e store p n safe_mode) = Inr (recs, False)
         \<and> r \<in> set recs \<and> fallback_type r \<noteq> None
         \<and> (total_price r < 200 \<or> 350 < total_price r)"
  then obtain e store p n safe_mode recs r where
        b: "budget p = Some \<lparr>budget_min = 200, budget_max = 350\<rparr>"
    and g: "fst (generate_recommendations e store p n safe_mode) = Inr (recs, False)"
    and r: "r \<in> set recs" and out: "total_price r < 200 \<or> 350 < total_price r"
    by blast
  from computed_within_budget[OF g b r] have "200 \<le> total_price r \<and> total_price r \<le> 350"
    by simp
  with out show False by simp
qed

text \<open>
  C3, amended. For a profile with budget [200, 350] the budget-expansion stage queries
  the price range [178, 372] (the range widened on each side by 15 percent of its
  width, truncated to 22). Against a catalog with no candidate priced under 400 the
  strict query and every fallback stage return nothing, and on a cache miss the call
  fails with "no configurations available".
\<close>

theorem expanded_budget_scenario_fails:
  assumes b: "budget p = Some \<lparr>budget_min = 200, budget_max = 350\<rparr>"
      and cat: "\<forall>c \<in> set catalog. \<forall>x. cfg_total_price c = Some (Num x) \<longrightarrow> 400 \<le> x"
      and miss: "cache_get store (recommendations_cache_key (float_repr (list_env catalog)) p n safe_mode) = None
           \<or> cache_get store (recommendations_cache_key (float_repr (list_env catalog)) p n safe_mode) = Some []"
  shows "price_gte (fallback_pipeline_of p \<lparr>budget_min = 200, budget_max = 350\<rparr> n False True False) = 178
       \<and> price_lte (fallback_pipeline_of p \<lparr>budget_min = 200, budget_max = 350\<rparr> n False True False) = 372
       \<and> stage_query (list_env catalog) p n ExpandBudget = []
       \<and> stage_query (list_env catalog) p n RemoveAllConstraints = []
       \<and> fst (generate_recommendations (list_env catalog) store p n safe_mode)
           = Inl NoConfigurationsAvailable"
proof -
  have sq: "stage_query (list_env catalog) p n s = []" for s
    using b cat by (rule stage_query_none)
  have strict: "strict_query (list_env catalog) p \<lparr>budget_min = 200, budget_max = 350\<rparr> n safe_mode = Inr []"
    using cat by (rule strict_query_none)
  have "fst (progressive_fallback (list_env catalog) p n []) = []"
    by (simp add: progressive_fallback_def attempt_def Let_def sq)
  then have "compute_recommendations (list_env catalog) p \<lparr>budget_min = 200, budget_max = 350\<rparr> n safe_mode
               = Inl NoConfigurationsAvailable"
    by (simp add: compute_recommendations_def strict Let_def)
  then have "fst (generate_recommendations (list_env catalog) store p n safe_mode)
           = Inl NoConfigurationsAvailable"
    using generate_miss[OF b miss] by simp
  then show ?thesis using sq expanded_range by simp
qed

text \<open>The hypotheses hold for the catalog that holds one configuration priced 450.\<close>

theorem expanded_budget_scenario_fails_witness:
  "budget profile_gaming = Some \<lparr>budget_min = 200, budget_max = 350\<rparr>
   \<and> cfg_total_price config_450 = Some (Num 450) \<and> (400::rat) \<le> 450
   \<and> cache_get Map.empty (recommendations_cache_key (float_repr (list_env [config_450])) profile_gaming 3 False) = None
   \<and> fst (generate_recommendations (list_env [config_450]) Map.empty profile_gaming 3 False)
       = Inl NoConfigurationsAvailable"
proof -
  have cat: "\<forall>c \<in> set [config_450]. \<forall>x. cfg_total_price c = Some (Num x) \<longrightarrow> 400 \<le> x"
    by (simp add: config_450_def config_of_def)
  have price: "cfg_total_price config_450 = Some (Num 450)"
    by (simp add: config_450_def config_of_def)
  have miss: "cache_get Map.empty (recommendations_cache_key (float_repr (list_env [config_450])) profile_gaming 3 False) = None
     \<or> cache_get Map.empty (recommendations_cache_key (float_repr (list_env [config_450])) profile_gaming 3 False) = Some []"
    by (simp add: cache_get_def)
  from expanded_budget_scenario_fails[OF budget_profile_gaming cat miss]
  show ?thesis using budget_profile_gaming price by (simp add: cache_get_def)
qed

section \<open>Fallback tagging\<close>

text \<open>
  C5. For a profile with a preferred brand the tag does not name the stage: with one
  configuration inside the budget and below every threshold, the first three stages
  return nothing, the remove-all-constraints stage returns the configuration tagged
  \<open>preferred_brands\<close>, and the candidate is returned with that fallback type.
\<close>

theorem remove_all_constraints_tagged_preferred_brands:
  "snd (progressive_fallback (list_env [config_low_score]) profile_nvidia 3 [])
   = [(RelaxPreferredBrands, []), (RelaxPerformance, []), (ExpandBudget, []),
      (RemoveAllConstraints, [config_low_score\<lparr>cfg_fallback_type := Some ''preferred_brands''\<rparr>])]
   \<and> fst (generate_recommendations (list_env [config_low_score]) Map.empty profile_nvidia 3 False)
   = Inr ([\<lparr>configuration_id = ''c2'', name = ''PC'', total_price = 300,
         confidence_score = 621 / 10,
         match_reasons =
           [(''purpose_alignment'', 9 / 20), (''budget_fit'', 1 / 5),
            (''performance_match'', 3 / 10), (''fallback_note'', 0)],
         trade_offs = [(''performance'', ''negative'')], components = [],
         fallback_type = Some ''preferred_brands''\<rparr>], False)"
  using trace_low_score_nvidia generate_empty_store[OF budget_profile_nvidia, of "list_env [config_low_score]" 3 False]
  by (simp add: compute_low_score_nvidia)

section \<open>Order of the fallback stages\<close>

text \<open>
  C6. The stages attempted are in the order relax preferred brands, relax performance,
  expand budget, remove all constraints; a stage is attempted only when the strict
  query returned nothing, and only when every stage attempted before it returned
  nothing. Each trace entry holds what the query of its stage returned.
\<close>

theorem fallback_stages_in_order:
  "sorted_wrt (<) (map (stage_number \<circ> fst) (snd (progressive_fallback e p n configs0)))
   \<and> (snd (progressive_fallback e p n configs0) \<noteq> [] \<longrightarrow> configs0 = [])
   \<and> (\<forall>i < length (snd (progressive_fallback e p n configs0)).
         snd (snd (progressive_fallback e p n configs0) ! i)
           = stage_query e p n (fst (snd (progressive_fallback e p n configs0) ! i))
         \<and> (\<forall>j < i. snd (snd (progressive_fallback e p n configs0) ! j) = []))"
proof (cases "configs0 = []")
  case False
  then show ?thesis by (simp add: progressive_fallback_def)
next
  case True
  define r1 where "r1 = stage_query e p n RelaxPreferredBrands"
  define r2 where "r2 = stage_query e p n RelaxPerformance"
  define r3 where "r3 = stage_query e p n ExpandBudget"
  define r4 where "r4 = stage_query e p n RemoveAllConstraints"
  define t1 where "t1 = (if list_or_empty (preferred_brands p) \<noteq> [] then [(RelaxPreferredBrands, r1)] else [])"
  have tr: "snd (progressive_fallback e p n configs0) =
      (if list_or_empty (preferred_brands p) \<noteq> [] \<and> r1 \<noteq> [] then t1
       else if r2 \<noteq> [] then t1 @ [(RelaxPerformance, r2)]
       else if r3 \<noteq> [] then t1 @ [(RelaxPerformance, r2), (ExpandBudget, r3)]
       else t1 @ [(RelaxPerformance, r2), (ExpandBudget, r3), (RemoveAllConstraints, r4)])"
    unfolding progressive_fallback_def attempt_def Let_def r1_def r2_def r3_def r4_def t1_def
    using True by simp
  show ?thesis
    unfolding tr using True
    by (auto simp: t1_def stage_number_def nth_Cons' less_Suc_eq r1_def r2_def r3_def r4_def)
qed

text \<open>For the profile with a preferred brand and the low-scoring configuration, all
  four stages are attempted, and the first three returned nothing.\<close>

theorem fallback_stages_in_order_witness:
  "map fst (snd (progressive_fallback (list_env [config_low_score]) profile_nvidia 3 []))
     = [RelaxPreferredBrands, RelaxPerformance, ExpandBudget, RemoveAllConstraints]
   \<and> sorted_wrt (<) (map (stage_number \<circ> fst)
         (snd (progressive_fallback (list_env [config_low_score]) profile_nvidia 3 [])))
   \<and> snd (snd (progressive_fallback (list_env [config_low_score]) profile_nvidia 3 []) ! 0) = []
   \<and> snd (snd (progressive_fallback (list_env [config_low_score]) profile_nvidia 3 []) ! 1) = []
   \<and> snd (snd (progressive_fallback (list_env [config_low_score]) profile_nvidia 3 []) ! 2) = []
   \<and> snd (snd (progressive_fallback (list_env [config_low_score]) profile_nvidia 3 []) ! 3) \<noteq> []"
proof -
  have len: "3 < length (snd (progressive_fallback (list_env [config_low_score]) profile_nvidia 3 []))"
    by (simp add: trace_low_score_nvidia)
  from fallback_stages_in_order[of "list_env [config_low_score]" profile_nvidia 3 "[]"] len
  have "sorted_wrt (<) (map (stage_number \<circ> fst)
         (snd (progressive_fallback (list_env [config_low_score]) profile_nvidia 3 [])))
     \<and> (\<forall>j < 3. snd (snd (progressive_fallback (list_env [config_low_score]) profile_nvidia 3 []) ! j) = [])"
    by blast
  then show ?thesis by (simp add: trace_low_score_nvidia)
qed

section \<open>Independence of the cache key\<close>

text \<open>
  C9, as claimed, fails: the brands are sorted, not made a set. Two profiles that agree
  on everything, one listing NVIDIA once and one listing it twice, have the same set
  of preferred brands and different cache keys.
\<close>

theorem cache_key_duplicate_brand_counterexample:
  "purpose profile_nvidia = purpose profile_nvidia_twice
   \<and> budget profile_nvidia = budget profile_nvidia_twice
   \<and> performance_level profile_nvidia = performance_level profile_nvidia_twice
   \<and> set (list_or_empty (preferred_brands profile_nvidia))
       = set (list_or_empty (preferred_brands profile_nvidia_twice))
   \<and> set (list_or_empty (must_have_features profile_nvidia))
       = set (list_or_empty (must_have_features profile_nvidia_twice))
   \<and> recommendations_cache_key repr_whole_float profile_nvidia 3 False
       \<noteq> recommendations_cache_key repr_whole_float profile_nvidia_twice 3 False"
  unfolding key_nvidia key_nvidia_twice
  by (simp add: profile_nvidia_def profile_nvidia_twice_def profile_gaming_def list_or_empty_def)

text \<open>
  C9, amended. Two requests whose profiles agree on purpose, budget, performance level,
  and on the preferred brands and the must-have features as multisets (the same
  entries the same number of times, in any order), with the same
  \<open>max_recommendations\<close> and \<open>safe_mode\<close>, have the same cache key, whatever their
  session and user identifiers.
\<close>

theorem cache_key_noninterference:
  assumes "purpose p1 = purpose p2" and "budget p1 = budget p2"
      and "performance_level p1 = performance_level p2"
      and "mset (list_or_empty (preferred_brands p1)) = mset (list_or_empty (preferred_brands p2))"
      and "mset (list_or_empty (must_have_features p1)) = mset (list_or_empty (must_have_features p2))"
  shows "recommendations_cache_key fr p1 n safe_mode = recommendations_cache_key fr p2 n safe_mode"
proof -
  have "sort (list_or_empty (preferred_brands p1)) = sort (list_or_empty (preferred_brands p2))"
    using assms(4) by (rule sort_mset_eq)
  moreover have "sort (list_or_empty (must_have_features p1)) = sort (list_or_empty (must_have_features p2))"
    using assms(5) by (rule sort_mset_eq)
  ultimately have "normalized_profile_json fr p1 n safe_mode = normalized_profile_json fr p2 n safe_mode"
    using assms(1-3) unfolding normalized_profile_json_def by simp
  then show ?thesis unfolding recommendations_cache_key_def by simp
qed

text \<open>Two profiles with the brands in different order and different identifiers.\<close>

theorem cache_key_noninterference_witness:
  "purpose profile_two_brands = purpose profile_two_brands_other_session
   \<and> budget profile_two_brands = budget profile_two_brands_other_session
   \<and> performance_level profile_two_brands = performance_level profile_two_brands_other_session
   \<and> mset (list_or_empty (preferred_brands profile_two_brands))
       = mset (list_or_empty (preferred_brands profile_two_brands_other_session))
   \<and> mset (list_or_empty (must_have_features profile_two_brands))
       = mset (list_or_empty (must_have_features profile_two_brands_other_session))
   \<and> session_id profile_two_brands \<noteq> session_id profile_two_brands_other_session
   \<and> preferred_brands profile_two_brands \<noteq> preferred_brands profile_two_brands_other_session
   \<and> recommendations_cache_key repr_whole_float profile_two_brands 3 False
       = recommendations_cache_key repr_whole_float profile_two_brands_other_session 3 False"
proof -
  have h: "purpose profile_two_brands = purpose profile_two_brands_other_session"
      "budget profile_two_brands = budget profile_two_brands_other_session"
      "performance_level profile_two_brands = performance_level profile_two_brands_other_session"
      "mset (list_or_empty (preferred_brands profile_two_brands))
         = mset (list_or_empty (preferred_brands profile_two_brands_other_session))"
      "mset (list_or_empty (must_have_features profile_two_brands))
         = mset (list_or_empty (must_have_features profile_two_brands_other_session))"
    by (simp_all add: profile_two_brands_def profile_two_brands_other_session_def profile_gaming_def
          list_or_empty_def)
  have d: "session_id profile_two_brands \<noteq> session_id profile_two_brands_other_session"
      "preferred_brands profile_two_brands \<noteq> preferred_brands profile_two_brands_other_session"
    by (simp_all add: profile_two_brands_def profile_two_brands_other_session_def profile_gaming_def)
  from cache_key_noninterference[OF h, of repr_whole_float 3 False] h d show ?thesis by blast
qed

end
